theory Spec2Isabelle
  imports Main
begin

section \<open>Python values and strings\<close>

text \<open>
  The program is \<^verbatim>\<open>populate_req.py\<close>.  Python strings are modelled as HOL strings; a
  \<^typ>\<open>char\<close> stands for the code point of the same number, so the model covers text
  whose code points are below 256.
\<close>

abbreviation LF :: char where "LF \<equiv> CHR 0x0A"
abbreviation CR :: char where "CR \<equiv> CHR 0x0D"
abbreviation SQ :: char where "SQ \<equiv> CHR 0x27"
abbreviation DQ :: char where "DQ \<equiv> CHR 0x22"
abbreviation BS :: char where "BS \<equiv> CHR 0x5C"

text \<open>\<^verbatim>\<open>str.isspace\<close> on one character: the code points 9-13, 28-32, 133 and 160.\<close>

definition isspace :: "char \<Rightarrow> bool" where
  "isspace c =
     (let n = (of_char c :: nat)
      in (9 \<le> n \<and> n \<le> 13) \<or> (28 \<le> n \<and> n \<le> 32) \<or> n = 133 \<or> n = 160)"

text \<open>\<^verbatim>\<open>s.strip()\<close>, \<^verbatim>\<open>s.rstrip('\n')\<close>, \<^verbatim>\<open>s.startswith(p)\<close> and \<^verbatim>\<open>sep.join(xs)\<close>.\<close>

definition strip :: "string \<Rightarrow> string" where
  "strip s = dropWhile isspace (rev (dropWhile isspace (rev s)))"

definition rstrip_nl :: "string \<Rightarrow> string" where
  "rstrip_nl s = rev (dropWhile (\<lambda>c. c = LF) (rev s))"

definition startswith :: "string \<Rightarrow> string \<Rightarrow> bool" where
  "startswith s p = (take (length p) s = p)"

fun join :: "string \<Rightarrow> string list \<Rightarrow> string" where
  "join sep [] = []"
| "join sep [x] = x"
| "join sep (x # y # ys) = x @ sep @ join sep (y # ys)"

text \<open>\<^verbatim>\<open>str(n)\<close> for an integer, used when a status code is formatted into a message.\<close>

fun str_nat :: "nat \<Rightarrow> string" where
  "str_nat n =
     (if n < 10 then [char_of (48 + n)]
      else str_nat (n div 10) @ [char_of (48 + n mod 10)])"

declare str_nat.simps [simp del]

definition str_int :: "int \<Rightarrow> string" where
  "str_int i = (if i < 0 then CHR ''-'' # str_nat (nat (- i)) else str_nat (nat i))"

text \<open>
  \<^verbatim>\<open>repr(s)\<close> of a string, which the message of a \<^verbatim>\<open>KeyError\<close> and of an \<^verbatim>\<open>OSError\<close>
  with a file name use: double quotes when the string has a single quote and no double
  quote, single quotes otherwise; the quote and the backslash escaped; \<^verbatim>\<open>\t\<close>, \<^verbatim>\<open>\n\<close>,
  \<^verbatim>\<open>\r\<close>; and \<^verbatim>\<open>\xhh\<close> for the other characters that are not printable.
\<close>

definition printable :: "char \<Rightarrow> bool" where
  "printable c =
     (let n = (of_char c :: nat)
      in (32 \<le> n \<and> n \<le> 126) \<or> (161 \<le> n \<and> n \<le> 172) \<or> (174 \<le> n \<and> n \<le> 255))"

definition hexdigit :: "nat \<Rightarrow> char" where
  "hexdigit n = (if n < 10 then char_of (48 + n) else char_of (87 + n))"

definition repr_char :: "char \<Rightarrow> char \<Rightarrow> string" where
  "repr_char q c =
     (if c = q \<or> c = BS then [BS, c]
      else if c = CHR 0x09 then [BS, CHR ''t'']
      else if c = LF then [BS, CHR ''n'']
      else if c = CR then [BS, CHR ''r'']
      else if printable c then [c]
      else [BS, CHR ''x'', hexdigit ((of_char c :: nat) div 16), hexdigit ((of_char c :: nat) mod 16)])"

definition repr_str :: "string \<Rightarrow> string" where
  "repr_str s =
     (let q = (if SQ \<in> set s \<and> DQ \<notin> set s then DQ else SQ)
      in q # concat (map (repr_char q) s) @ [q])"

text \<open>
  A value that the code tests for truthiness and formats into an f-string: \<^verbatim>\<open>None\<close>, a
  string, or any other object, given by its truth value and its \<^verbatim>\<open>str()\<close>.
\<close>

datatype pyval = PyNone | PyStr string | PyOther bool string

fun truthy :: "pyval \<Rightarrow> bool" where
  "truthy PyNone = False"
| "truthy (PyStr s) = (s \<noteq> [])"
| "truthy (PyOther b s) = b"

fun format :: "pyval \<Rightarrow> string" where
  "format PyNone = ''None''"
| "format (PyStr s) = s"
| "format (PyOther b s) = s"

text \<open>The same two operations on a variable that holds \<^verbatim>\<open>None\<close> or a string.\<close>

fun truthy_opt :: "string option \<Rightarrow> bool" where
  "truthy_opt None = False"
| "truthy_opt (Some s) = (s \<noteq> [])"

fun format_opt :: "string option \<Rightarrow> string" where
  "format_opt None = ''None''"
| "format_opt (Some s) = s"

section \<open>Exceptions\<close>

text \<open>
  An exception is its class and its \<^verbatim>\<open>str()\<close>.  Three classes matter to the handlers of
  the program: \<^verbatim>\<open>importlib.metadata.PackageNotFoundError\<close>, any other subclass of
  \<^verbatim>\<open>Exception\<close>, and the exceptions that derive from \<^verbatim>\<open>BaseException\<close> only
  (\<^verbatim>\<open>KeyboardInterrupt\<close>, \<^verbatim>\<open>SystemExit\<close>), which \<^verbatim>\<open>except Exception\<close> does not catch.
\<close>

datatype exn_class = PackageNotFoundError | OtherException | BaseExceptionOnly

datatype exn = Exn exn_class string

fun class_of :: "exn \<Rightarrow> exn_class" where
  "class_of (Exn c m) = c"

fun str_exn :: "exn \<Rightarrow> string" where
  "str_exn (Exn c m) = m"

definition is_Exception :: "exn \<Rightarrow> bool" where
  "is_Exception e = (class_of e \<noteq> BaseExceptionOnly)"

section \<open>Logging\<close>

datatype level = DEBUG | INFO | WARNING | ERROR

fun levelno :: "level \<Rightarrow> nat" where
  "levelno DEBUG = 10"
| "levelno INFO = 20"
| "levelno WARNING = 30"
| "levelno ERROR = 40"

type_synonym logs = "(level \<times> string) list"

text \<open>
  \<^verbatim>\<open>logging.basicConfig(level=logging.INFO)\<close> (line 7): the root logger emits a record
  whose level is at least \<^verbatim>\<open>INFO\<close> and drops the others.
\<close>

definition logging_log :: "level \<Rightarrow> string \<Rightarrow> logs \<Rightarrow> logs" where
  "logging_log lvl msg lg = (if levelno INFO \<le> levelno lvl then lg @ [(lvl, msg)] else lg)"

text \<open>A value between the literal single quotes that the f-strings of the messages write.\<close>

definition quoted :: "string \<Rightarrow> string" where
  "quoted s = SQ # s @ [SQ]"

section \<open>The collaborators\<close>

text \<open>
  \<^verbatim>\<open>packaging.requirements.Requirement\<close>: the fields the program reads.  \<open>extras\<close> is the
  set of extras in its iteration order, \<open>specifier\<close> the specifiers of the
  \<^verbatim>\<open>SpecifierSet\<close> (its truth value is that of its length), \<open>marker\<close> the \<^verbatim>\<open>str()\<close> of
  the marker when there is one (a \<^verbatim>\<open>Marker\<close> object is always true), \<open>url\<close> the URL
  or \<^verbatim>\<open>None\<close>.
\<close>

record requirement =
  name :: string
  extras :: "string list"
  specifier :: "string list"
  marker :: "string option"
  url :: "string option"

text \<open>
  A \<^verbatim>\<open>requests\<close> response: the status code, and what \<^verbatim>\<open>response.json()\<close> gives, an
  exception or the decoded document, a dictionary of dictionaries as the index serves it.
\<close>

record response =
  status_code :: int
  json :: "exn + (string \<rightharpoonup> (string \<rightharpoonup> pyval))"

datatype write_fault = OpenFailed exn | WriteFailed nat exn

text \<open>
  The environment of one run.  The parser, the local registry and the HTTP client are
  libraries outside the repository: they are parameters, each a function that returns a
  value or raises.  \<open>read_error p = Some (n, e)\<close>: reading \<open>p\<close> raises \<open>e\<close> after \<open>n\<close>
  lines have been yielded (\<open>n = 0\<close> when \<^verbatim>\<open>open\<close> itself fails).  \<open>write_error p\<close>:
  \<^verbatim>\<open>open(p, "w")\<close> fails before it truncates the file, or the write fails after some
  characters have reached the file.
\<close>

record env =
  Requirement :: "string \<Rightarrow> exn + requirement"
  metadata_version :: "string \<Rightarrow> exn + pyval"
  requests_get :: "string \<Rightarrow> exn + response"
  read_error :: "string \<Rightarrow> (nat \<times> exn) option"
  write_error :: "string \<Rightarrow> write_fault option"

text \<open>The state a run changes: the files (text by path) and the records logged.\<close>

record world =
  files :: "string \<rightharpoonup> string"
  logged :: logs

section \<open>The program\<close>

text \<open>
  A statement that may raise and that logs is a function from the log to an outcome
  (\<open>Inl\<close> the exception raised, \<open>Inr\<close> the value returned) and the log after it.
\<close>

text \<open>\<^verbatim>\<open>get_installed_version\<close>, lines 9-26.\<close>

definition get_installed_version :: "env \<Rightarrow> string \<Rightarrow> logs \<Rightarrow> (exn + pyval) \<times> logs" where
  "get_installed_version en package_name lg =
     (case metadata_version en package_name of
        Inr v \<Rightarrow> (Inr v, lg)
      | Inl e \<Rightarrow>
          if class_of e = PackageNotFoundError then
            (Inr PyNone,
             logging_log DEBUG (''Package '' @ quoted package_name @ '' is not installed.'') lg)
          else if is_Exception e then
            (Inr PyNone,
             logging_log ERROR
               (''Error getting installed version for '' @ quoted package_name @ '': '' @ str_exn e) lg)
          else (Inl e, lg))"

text \<open>The two subscripts of \<^verbatim>\<open>data['info']['version']\<close>; a missing key raises \<^verbatim>\<open>KeyError\<close>.\<close>

definition subscript :: "(string \<rightharpoonup> 'a) \<Rightarrow> string \<Rightarrow> exn + 'a" where
  "subscript d k = (case d k of None \<Rightarrow> Inl (Exn OtherException (repr_str k)) | Some v \<Rightarrow> Inr v)"

text \<open>\<^verbatim>\<open>get_latest_version_from_pypi\<close>, lines 28-50.\<close>

definition pypi_handler :: "string \<Rightarrow> exn \<Rightarrow> logs \<Rightarrow> (exn + pyval) \<times> logs" where
  "pypi_handler package_name e lg =
     (if is_Exception e then
        (Inr PyNone,
         logging_log ERROR
           (''Error fetching latest version from PyPI for '' @ quoted package_name @ '': '' @ str_exn e) lg)
      else (Inl e, lg))"

definition get_latest_version_from_pypi :: "env \<Rightarrow> string \<Rightarrow> logs \<Rightarrow> (exn + pyval) \<times> logs" where
  "get_latest_version_from_pypi en package_name lg =
     (let url_str = ''https://pypi.org/pypi/'' @ package_name @ ''/json'' in
      case requests_get en url_str of
        Inl e \<Rightarrow> pypi_handler package_name e lg
      | Inr resp \<Rightarrow>
          if status_code resp = 200 then
            (case json resp of
               Inl e \<Rightarrow> pypi_handler package_name e lg
             | Inr data \<Rightarrow>
                 (case subscript data ''info'' of
                    Inl e \<Rightarrow> pypi_handler package_name e lg
                  | Inr info \<Rightarrow>
                      (case subscript info ''version'' of
                         Inl e \<Rightarrow> pypi_handler package_name e lg
                       | Inr latest_version \<Rightarrow> (Inr latest_version, lg))))
          else
            (Inr PyNone,
             logging_log WARNING
               (''Failed to get latest version for '' @ quoted package_name
                  @ '' from PyPI. Status code: '' @ str_int (status_code resp)) lg))"

text \<open>Lines 124-133: the requirement line rebuilt from the parsed fields.\<close>

definition reconstruct :: "requirement \<Rightarrow> string option \<Rightarrow> pyval \<Rightarrow> string" where
  "reconstruct req operator version =
     (let s0 = name req;
          s1 = (if extras req \<noteq> [] then s0 @ ''['' @ join '','' (extras req) @ '']'' else s0);
          s2 = (if truthy_opt operator \<and> truthy version
                then s1 @ format_opt operator @ format version else s1)
      in case marker req of None \<Rightarrow> s2 | Some m \<Rightarrow> s2 @ ''; '' @ m)"

text \<open>
  Lines 67-133: the body of the loop for one line of the file.  It returns the line
  appended to \<^verbatim>\<open>updated_lines\<close>.
\<close>

definition loop_body :: "env \<Rightarrow> string \<Rightarrow> logs \<Rightarrow> (exn + string) \<times> logs" where
  "loop_body en line lg =
     (let package_line = rstrip_nl line in
      if strip package_line = [] \<or> startswith (strip package_line) ''#'' then (Inr package_line, lg)
      else
        case Requirement en package_line of
          Inl e \<Rightarrow>
            if is_Exception e then
              (Inr package_line,
               logging_log WARNING
                 (''Could not parse the line: '' @ quoted package_line @ ''. Error: '' @ str_exn e) lg)
            else (Inl e, lg)
        | Inr req \<Rightarrow>
            if truthy_opt (url req) then (Inr package_line, lg)
            else
              (case get_installed_version en (name req) lg of
                 (Inl e, lg1) \<Rightarrow> (Inl e, lg1)
               | (Inr installed_version, lg1) \<Rightarrow>
                   if truthy installed_version then
                     (if specifier req = [] then
                        (Inr (reconstruct req (Some ''=='') installed_version), lg1)
                      else (Inr package_line, lg1))
                   else if specifier req = [] then
                     (case get_latest_version_from_pypi en (name req) lg1 of
                        (Inl e, lg2) \<Rightarrow> (Inl e, lg2)
                      | (Inr latest_version, lg2) \<Rightarrow>
                          if truthy latest_version then
                            (Inr (reconstruct req (Some ''=='') latest_version), lg2)
                          else
                            (Inr package_line,
                             logging_log WARNING
                               (''Could not find '' @ quoted (name req) @ '' on PyPI.'') lg2))
                   else (Inr package_line, lg1)))"

text \<open>
  Reading a text file: universal newlines turn \<^verbatim>\<open>\r\n\<close> and \<^verbatim>\<open>\r\<close> into \<^verbatim>\<open>\n\<close>, and
  iterating the file yields the lines, each with its newline, the last one without when
  the text does not end in one.
\<close>

fun universal_newlines :: "string \<Rightarrow> string" where
  "universal_newlines [] = []"
| "universal_newlines [c] = (if c = CR then [LF] else [c])"
| "universal_newlines (c # d # cs) =
     (if c = CR then
        (if d = LF then LF # universal_newlines cs else LF # universal_newlines (d # cs))
      else c # universal_newlines (d # cs))"

fun file_lines :: "string \<Rightarrow> string \<Rightarrow> string list" where
  "file_lines cur [] = (if cur = [] then [] else [cur])"
| "file_lines cur (c # cs) =
     (if c = LF then (cur @ [c]) # file_lines [] cs else file_lines (cur @ [c]) cs)"

text \<open>
  The lines the \<^verbatim>\<open>for\<close> loop receives and the exception that ends the iteration, if any:
  a missing file makes \<^verbatim>\<open>open\<close> raise \<^verbatim>\<open>FileNotFoundError\<close>, whose message ends with the
  \<^verbatim>\<open>repr\<close> of the path.
\<close>

definition read_lines :: "env \<Rightarrow> string \<Rightarrow> world \<Rightarrow> string list \<times> exn option" where
  "read_lines en path w =
     (case files w path of
        None \<Rightarrow>
          ([], Some (Exn OtherException
                       (''[Errno 2] No such file or directory: '' @ repr_str path)))
      | Some text \<Rightarrow>
          (case read_error en path of
             None \<Rightarrow> (file_lines [] (universal_newlines text), None)
           | Some (n, e) \<Rightarrow> (take n (file_lines [] (universal_newlines text)), Some e)))"

text \<open>The loop of lines 66-133 over the lines read, accumulating \<^verbatim>\<open>updated_lines\<close>.\<close>

fun for_lines :: "env \<Rightarrow> string list \<Rightarrow> string list \<Rightarrow> logs \<Rightarrow> (exn + string list) \<times> logs" where
  "for_lines en [] updated_lines lg = (Inr updated_lines, lg)"
| "for_lines en (line # rest) updated_lines lg =
     (case loop_body en line lg of
        (Inl e, lg1) \<Rightarrow> (Inl e, lg1)
      | (Inr out, lg1) \<Rightarrow> for_lines en rest (updated_lines @ [out]) lg1)"

text \<open>Lines 64-133, the body of the first \<^verbatim>\<open>try\<close>: read and process every line.\<close>

definition read_phase :: "env \<Rightarrow> string \<Rightarrow> world \<Rightarrow> (exn + string list) \<times> logs" where
  "read_phase en requirements_file w =
     (case read_lines en requirements_file w of
        (ls, err) \<Rightarrow>
          (case for_lines en ls [] (logged w) of
             (Inl e, lg) \<Rightarrow> (Inl e, lg)
           | (Inr updated_lines, lg) \<Rightarrow>
               (case err of None \<Rightarrow> (Inr updated_lines, lg) | Some e \<Rightarrow> (Inl e, lg))))"

text \<open>
  Lines 139-143, the second \<^verbatim>\<open>try\<close>: the file is opened for writing, which truncates
  it, and the text is written (the model is of a platform whose line separator is
  \<^verbatim>\<open>\n\<close>).
\<close>

definition write_phase :: "env \<Rightarrow> string \<Rightarrow> string list \<Rightarrow> world \<Rightarrow> (exn + unit) \<times> world" where
  "write_phase en requirements_file updated_lines w =
     (let text = join [LF] updated_lines @ [LF] in
      case write_error en requirements_file of
        None \<Rightarrow> (Inr (), w\<lparr>files := (files w)(requirements_file \<mapsto> text)\<rparr>)
      | Some (OpenFailed e) \<Rightarrow> (Inl e, w)
      | Some (WriteFailed k e) \<Rightarrow>
          (Inl e, w\<lparr>files := (files w)(requirements_file \<mapsto> take k text)\<rparr>))"

text \<open>\<^verbatim>\<open>update_requirements_file\<close>, lines 52-143.\<close>

definition update_requirements_file :: "env \<Rightarrow> string \<Rightarrow> world \<Rightarrow> (exn + unit) \<times> world" where
  "update_requirements_file en requirements_file w =
     (case read_phase en requirements_file w of
        (Inl e, lg) \<Rightarrow>
          if is_Exception e then
            (Inr (),
             w\<lparr>logged := logging_log ERROR (''Error processing requirements file: '' @ str_exn e) lg\<rparr>)
          else (Inl e, w\<lparr>logged := lg\<rparr>)
      | (Inr updated_lines, lg) \<Rightarrow>
          (case write_phase en requirements_file updated_lines (w\<lparr>logged := lg\<rparr>) of
             (Inl e, w1) \<Rightarrow>
               if is_Exception e then
                 (Inr (),
                  w1\<lparr>logged :=
                       logging_log ERROR (''Error writing to requirements file: '' @ str_exn e)
                         (logged w1)\<rparr>)
               else (Inl e, w1)
           | (Inr u, w1) \<Rightarrow> (Inr (), w1)))"

section \<open>Normal operation\<close>

text \<open>
  Normal operation of the environment: whatever the parser, the registry, the HTTP
  client, the decoding of a response and the file system raise is an instance of
  \<^verbatim>\<open>Exception\<close>.  The exceptions outside that class (\<^verbatim>\<open>KeyboardInterrupt\<close>,
  \<^verbatim>\<open>SystemExit\<close>) end the process from outside.
\<close>

definition normal_operation :: "env \<Rightarrow> bool" where
  "normal_operation en =
     ((\<forall>s e. Requirement en s = Inl e \<longrightarrow> is_Exception e)
      \<and> (\<forall>n e. metadata_version en n = Inl e \<longrightarrow> is_Exception e)
      \<and> (\<forall>u e. requests_get en u = Inl e \<longrightarrow> is_Exception e)
      \<and> (\<forall>u r e. requests_get en u = Inr r \<and> json r = Inl e \<longrightarrow> is_Exception e)
      \<and> (\<forall>p n e. read_error en p = Some (n, e) \<longrightarrow> is_Exception e)
      \<and> (\<forall>p e. write_error en p = Some (OpenFailed e) \<longrightarrow> is_Exception e)
      \<and> (\<forall>p k e. write_error en p = Some (WriteFailed k e) \<longrightarrow> is_Exception e))"

section \<open>Example environments\<close>

text \<open>
  A small parser table, a registry and an index, used to run the program on concrete
  lines: the examples of the specification and a line with extras and a marker.
\<close>

definition numpy_req :: requirement where
  "numpy_req = \<lparr>name = ''numpy'', extras = [], specifier = [], marker = None, url = None\<rparr>"

definition requests_req :: requirement where
  "requests_req =
     \<lparr>name = ''requests'', extras = [''socks'', ''security''], specifier = [],
      marker = Some (''python_version < '' @ [DQ] @ ''3.9'' @ [DQ]), url = None\<rparr>"

definition flask_req :: requirement where
  "flask_req =
     \<lparr>name = ''flask'', extras = [''async''], specifier = [''>=2.0''], marker = None, url = None\<rparr>"

definition mylib_req :: requirement where
  "mylib_req =
     \<lparr>name = ''mylib'', extras = [], specifier = [], marker = None,
      url = Some ''git+https://example.com/mylib.git''\<rparr>"

definition requests_line :: string where
  "requests_line = ''requests[security,socks]; python_version<'' @ [SQ] @ ''3.9'' @ [SQ]"

definition demo_Requirement :: "string \<Rightarrow> exn + requirement" where
  "demo_Requirement s =
     (if s = ''numpy'' then Inr numpy_req
      else if s = ''numpy==1.26.4'' then Inr (numpy_req\<lparr>specifier := [''==1.26.4'']\<rparr>)
      else if s = ''numpy==2.3.4'' then Inr (numpy_req\<lparr>specifier := [''==2.3.4'']\<rparr>)
      else if s = requests_line then Inr requests_req
      else if s = ''flask[async]>=2.0'' then Inr flask_req
      else if s = ''mylib @ git+https://example.com/mylib.git'' then Inr mylib_req
      else Inl (Exn OtherException ''Expected package name at the start of dependency specifier''))"

definition found :: "string \<Rightarrow> response" where
  "found v = \<lparr>status_code = 200, json = Inr [''info'' \<mapsto> [''version'' \<mapsto> PyStr v]]\<rparr>"

definition not_found :: response where
  "not_found = \<lparr>status_code = 404, json = Inl (Exn OtherException ''Expecting value'')\<rparr>"

definition no_package :: "string \<Rightarrow> exn" where
  "no_package n = Exn PackageNotFoundError (''No package metadata was found for '' @ n)"

text \<open>numpy is installed; requests is not, and the index serves it.\<close>

definition demo_env :: env where
  "demo_env =
     \<lparr>Requirement = demo_Requirement,
      metadata_version = (\<lambda>n. if n = ''numpy'' then Inr (PyStr ''1.26.4'') else Inl (no_package n)),
      requests_get =
        (\<lambda>u. if u = ''https://pypi.org/pypi/requests/json'' then Inr (found ''2.32.3'')
             else Inr not_found),
      read_error = (\<lambda>p. None),
      write_error = (\<lambda>p. None)\<rparr>"

text \<open>The registry answers with an empty version string; the index serves numpy.\<close>

definition empty_local_env :: env where
  "empty_local_env =
     demo_env\<lparr>metadata_version := (\<lambda>n. Inr (PyStr [])),
              requests_get := (\<lambda>u. if u = ''https://pypi.org/pypi/numpy/json''
                                    then Inr (found ''2.3.4'') else Inr not_found)\<rparr>"

text \<open>Nothing is installed, and the index answers with an empty version string.\<close>

definition empty_remote_env :: env where
  "empty_remote_env =
     demo_env\<lparr>metadata_version := (\<lambda>n. Inl (no_package n)),
              requests_get := (\<lambda>u. Inr (found []))\<rparr>"

text \<open>The registry is broken and the network is down.\<close>

definition broken_env :: env where
  "broken_env =
     demo_env\<lparr>metadata_version :=
                (\<lambda>n. if n = ''numpy'' then Inl (Exn OtherException ''bad metadata'')
                     else Inl (no_package n)),
              requests_get := (\<lambda>u. Inl (Exn OtherException ''Connection refused''))\<rparr>"

text \<open>As \<open>broken_env\<close>, and the disk is full: the write fails after three characters.\<close>

definition full_disk_env :: env where
  "full_disk_env =
     broken_env\<lparr>write_error :=
                   (\<lambda>p. Some (WriteFailed 3 (Exn OtherException ''[Errno 28] No space left on device'')))\<rparr>"

definition demo_world :: world where
  "demo_world =
     \<lparr>files = [''requirements.txt'' \<mapsto>
                 ''# pinned manually'' @ [LF] @ ''numpy'' @ [LF] @ ''flask[async]>=2.0'' @ [LF]],
      logged = []\<rparr>"

text \<open>The file cannot be decoded: reading raises after two lines.\<close>

definition bad_encoding_env :: env where
  "bad_encoding_env =
     demo_env\<lparr>read_error := (\<lambda>p. Some (2, Exn OtherException ''invalid start byte''))\<rparr>"

text \<open>
  The registry is broken, and the index answers 200 with a body that cannot be decoded for
  numpy, without the version for flask and without \<^verbatim>\<open>info\<close> for mylib; any other request
  is refused.
\<close>

definition garbled_env :: env where
  "garbled_env =
     broken_env\<lparr>requests_get :=
       (\<lambda>u. if u = ''https://pypi.org/pypi/numpy/json''
            then Inr \<lparr>status_code = 200, json = Inl (Exn OtherException ''Expecting value'')\<rparr>
            else if u = ''https://pypi.org/pypi/flask/json''
            then Inr \<lparr>status_code = 200, json = Inr [''info'' \<mapsto> Map.empty]\<rparr>
            else if u = ''https://pypi.org/pypi/mylib/json''
            then Inr \<lparr>status_code = 200, json = Inr Map.empty\<rparr>
            else Inl (Exn OtherException ''Connection refused''))\<rparr>"





section \<open>Facts about the helpers\<close>

lemma get_installed_version_log:
  "get_installed_version en n lg =
     (fst (get_installed_version en n []), lg @ snd (get_installed_version en n []))"
  by (simp add: get_installed_version_def logging_log_def split: sum.splits)

lemma get_latest_version_from_pypi_log:
  "get_latest_version_from_pypi en n lg =
     (fst (get_latest_version_from_pypi en n []), lg @ snd (get_latest_version_from_pypi en n []))"
  by (simp add: get_latest_version_from_pypi_def pypi_handler_def logging_log_def Let_def
      split: sum.splits)

text \<open>The line a loop iteration appends does not depend on the log, which only grows.\<close>

lemma loop_body_log:
  "loop_body en line lg = (fst (loop_body en line []), lg @ snd (loop_body en line []))"
proof -
  have gi: "\<exists>r l. \<forall>lg. get_installed_version en n lg = (r, lg @ l)" for n
    using get_installed_version_log [of en n] by blast
  have gl: "\<exists>r l. \<forall>lg. get_latest_version_from_pypi en n lg = (r, lg @ l)" for n
    using get_latest_version_from_pypi_log [of en n] by blast
  show ?thesis
  proof (cases "Requirement en (rstrip_nl line)")
    case (Inl e)
    then show ?thesis by (simp add: loop_body_def Let_def logging_log_def)
  next
    case (Inr req)
    obtain r l where i: "\<And>lg. get_installed_version en (name req) lg = (r, lg @ l)"
      using gi by blast
    obtain r2 l2 where p: "\<And>lg. get_latest_version_from_pypi en (name req) lg = (r2, lg @ l2)"
      using gl by blast
    have i0: "get_installed_version en (name req) [] = (r, l)" using i [of "[]"] by simp
    have p0: "get_latest_version_from_pypi en (name req) l = (r2, l @ l2)" using p by simp
    show ?thesis
      by (simp add: loop_body_def Let_def logging_log_def Inr i i0 p p0 split: sum.splits)
  qed
qed

lemma reconstruct_pinned:
  "truthy v \<Longrightarrow>
   reconstruct req (Some ''=='') v =
     name req
     @ (if extras req = [] then [] else ''['' @ join '','' (extras req) @ '']'')
     @ ''=='' @ format v
     @ (case marker req of None \<Rightarrow> [] | Some m \<Rightarrow> ''; '' @ m)"
  by (simp add: reconstruct_def Let_def split: option.splits)

text \<open>
  Every line the loop appends is the input line or a line rebuilt with the operator
  \<^verbatim>\<open>==\<close> and a true version.
\<close>

lemma loop_body_cases:
  assumes "loop_body en line lg = (Inr out, lg')"
  shows "out = rstrip_nl line
         \<or> (\<exists>req v. Requirement en (rstrip_nl line) = Inr req \<and> truthy v
               \<and> out = reconstruct req (Some ''=='') v)"
proof (cases "Requirement en (rstrip_nl line)")
  case (Inl e)
  with assms show ?thesis by (auto simp: loop_body_def Let_def split: if_splits)
next
  case (Inr req)
  with assms show ?thesis
    by (auto simp: loop_body_def Let_def split: if_splits prod.splits sum.splits)
qed

lemmas demo_defs = demo_env_def demo_Requirement_def numpy_req_def requests_req_def flask_req_def
  mylib_req_def requests_line_def found_def not_found_def no_package_def empty_local_env_def
  empty_remote_env_def broken_env_def full_disk_env_def demo_world_def bad_encoding_env_def
  garbled_env_def

lemmas eval_defs = loop_body_def Let_def rstrip_nl_def strip_def startswith_def isspace_def
  get_installed_version_def get_latest_version_from_pypi_def pypi_handler_def subscript_def
  reconstruct_def logging_log_def quoted_def is_Exception_def repr_str_def repr_char_def
  printable_def hexdigit_def

section \<open>Pinning to the installed version\<close>

text \<open>
  Claim C1, as amended.  A line that reaches the parser (it is neither blank nor a
  comment), parses, has no specifier and no URL, and whose package the registry reports
  at a non-empty version \<open>V\<close>, becomes the name, the extras in brackets joined by commas
  when there are any (in the order the set iterates), \<^verbatim>\<open>==\<close> with no space around it,
  \<open>V\<close>, and \<^verbatim>\<open>; \<close> with the marker when there is one; the log is unchanged.  And whatever
  the line, the registry and the index, a line the loop appends is the input line or
  such a line with \<^verbatim>\<open>==\<close>: no other operator is produced.

  The version has to be non-empty: line 100 tests the version for truth, so an empty
  version string counts as not installed (the counterexample below).
\<close>

theorem installed_line_pinned:
  assumes "strip (rstrip_nl line) \<noteq> []"
    and "\<not> startswith (strip (rstrip_nl line)) ''#''"
    and "Requirement en (rstrip_nl line) = Inr req"
    and "specifier req = []"
    and "url req = None"
    and "metadata_version en (name req) = Inr (PyStr V)"
    and "V \<noteq> []"
  shows "loop_body en line lg =
           (Inr (name req
                 @ (if extras req = [] then [] else ''['' @ join '','' (extras req) @ '']'')
                 @ ''=='' @ V
                 @ (case marker req of None \<Rightarrow> [] | Some m \<Rightarrow> ''; '' @ m)), lg)
         \<and> (\<forall>line' lg' out lg''. loop_body en line' lg' = (Inr out, lg'') \<longrightarrow>
               out = rstrip_nl line'
               \<or> (\<exists>req' v. Requirement en (rstrip_nl line') = Inr req' \<and> truthy v
                    \<and> out = name req'
                        @ (if extras req' = [] then [] else ''['' @ join '','' (extras req') @ '']'')
                        @ ''=='' @ format v
                        @ (case marker req' of None \<Rightarrow> [] | Some m \<Rightarrow> ''; '' @ m)))"
proof (intro conjI allI impI)
  have "truthy (PyStr V)" using assms(7) by simp
  from reconstruct_pinned [OF this, of req] assms
  show "loop_body en line lg =
           (Inr (name req
                 @ (if extras req = [] then [] else ''['' @ join '','' (extras req) @ '']'')
                 @ ''=='' @ V
                 @ (case marker req of None \<Rightarrow> [] | Some m \<Rightarrow> ''; '' @ m)), lg)"
    by (simp add: loop_body_def Let_def get_installed_version_def)
next
  fix line' lg' out lg''
  assume run: "loop_body en line' lg' = (Inr out, lg'')"
  from loop_body_cases [OF run]
  show "out = rstrip_nl line'
               \<or> (\<exists>req' v. Requirement en (rstrip_nl line') = Inr req' \<and> truthy v
                    \<and> out = name req'
                        @ (if extras req' = [] then [] else ''['' @ join '','' (extras req') @ '']'')
                        @ ''=='' @ format v
                        @ (case marker req' of None \<Rightarrow> [] | Some m \<Rightarrow> ''; '' @ m))"
    using reconstruct_pinned by metis
qed

text \<open>The line \<^verbatim>\<open>numpy\<close> with numpy installed at 1.26.4 becomes \<^verbatim>\<open>numpy==1.26.4\<close>.\<close>

theorem installed_line_pinned_witness:
  "loop_body demo_env (''numpy'' @ [LF]) [] = (Inr ''numpy==1.26.4'', [])"
proof -
  have h1: "strip (rstrip_nl (''numpy'' @ [LF])) \<noteq> []"
    by (simp add: rstrip_nl_def strip_def isspace_def)
  have h2: "\<not> startswith (strip (rstrip_nl (''numpy'' @ [LF]))) ''#''"
    by (simp add: rstrip_nl_def strip_def isspace_def startswith_def)
  have h3: "Requirement demo_env (rstrip_nl (''numpy'' @ [LF])) = Inr numpy_req"
    by (simp add: rstrip_nl_def demo_env_def demo_Requirement_def)
  have h4: "specifier numpy_req = []" and h5: "url numpy_req = None"
    by (simp_all add: numpy_req_def)
  have h6: "metadata_version demo_env (name numpy_req) = Inr (PyStr ''1.26.4'')"
    by (simp add: numpy_req_def demo_env_def)
  have h7: "''1.26.4'' \<noteq> []" by simp
  from installed_line_pinned [OF h1 h2 h3 h4 h5 h6 h7, of "[]"]
  show ?thesis by (simp add: numpy_req_def)
qed

text \<open>
  The claim as stated fails when the registry reports the empty string as the version:
  the line \<^verbatim>\<open>numpy\<close> is not pinned to \<^verbatim>\<open>numpy==\<close>; the index is asked, and the line
  becomes \<^verbatim>\<open>numpy==2.3.4\<close>.
\<close>

theorem installed_line_counterexample:
  "strip (rstrip_nl ''numpy'') \<noteq> []
   \<and> \<not> startswith (strip (rstrip_nl ''numpy'')) ''#''
   \<and> Requirement empty_local_env (rstrip_nl ''numpy'') = Inr numpy_req
   \<and> specifier numpy_req = [] \<and> url numpy_req = None \<and> extras numpy_req = []
   \<and> marker numpy_req = None
   \<and> metadata_version empty_local_env (name numpy_req) = Inr (PyStr [])
   \<and> loop_body empty_local_env ''numpy'' [] = (Inr ''numpy==2.3.4'', [])
   \<and> ''numpy==2.3.4'' \<noteq> name numpy_req @ ''=='' @ []"
  by (simp add: demo_defs eval_defs)

section \<open>More facts about the lookups\<close>

text \<open>The registry lookup returns when the registry raises nothing but an \<^verbatim>\<open>Exception\<close>.\<close>

lemma get_installed_version_returns:
  assumes "\<forall>e. metadata_version en n = Inl e \<longrightarrow> is_Exception e"
  shows "\<exists>r lg1. get_installed_version en n lg = (Inr r, lg1)"
proof (cases "metadata_version en n")
  case (Inl e)
  with assms have "is_Exception e" by simp
  with Inl show ?thesis by (simp add: get_installed_version_def)
next
  case (Inr v)
  then show ?thesis by (simp add: get_installed_version_def)
qed

text \<open>What the index lookup returns, case by case.\<close>

lemma get_latest_found:
  assumes "requests_get en (''https://pypi.org/pypi/'' @ n @ ''/json'') = Inr resp"
    and "status_code resp = 200" and "json resp = Inr data"
    and "data ''info'' = Some info" and "info ''version'' = Some v"
  shows "get_latest_version_from_pypi en n lg = (Inr v, lg)"
  using assms by (simp add: get_latest_version_from_pypi_def Let_def subscript_def)

lemma get_latest_none:
  assumes "case requests_get en (''https://pypi.org/pypi/'' @ n @ ''/json'') of
             Inl e \<Rightarrow> is_Exception e
           | Inr resp \<Rightarrow>
               status_code resp \<noteq> 200
               \<or> (case json resp of
                     Inl e \<Rightarrow> is_Exception e
                   | Inr data \<Rightarrow>
                       (case data ''info'' of None \<Rightarrow> True | Some info \<Rightarrow> info ''version'' = None))"
  shows "\<exists>lg2. get_latest_version_from_pypi en n lg = (Inr PyNone, lg2)"
  using assms
  by (auto simp: get_latest_version_from_pypi_def Let_def subscript_def pypi_handler_def
      is_Exception_def split: sum.splits option.splits)

text \<open>The records that the lookups write when they fail.\<close>

lemma get_installed_version_not_found:
  assumes "metadata_version en n = Inl e" and "class_of e = PackageNotFoundError"
  shows "get_installed_version en n lg = (Inr PyNone, lg)"
  using assms by (simp add: get_installed_version_def logging_log_def)

lemma get_installed_version_error:
  assumes "metadata_version en n = Inl e" and "class_of e = OtherException"
  shows "get_installed_version en n lg
          = (Inr PyNone,
             lg @ [(ERROR, ''Error getting installed version for '' @ quoted n @ '': ''
                             @ str_exn e)])"
  using assms by (simp add: get_installed_version_def logging_log_def is_Exception_def)

lemma get_latest_raises:
  assumes "case requests_get en (''https://pypi.org/pypi/'' @ n @ ''/json'') of
             Inl e \<Rightarrow> e = x
           | Inr resp \<Rightarrow>
               status_code resp = 200
               \<and> (case json resp of
                     Inl e \<Rightarrow> e = x
                   | Inr data \<Rightarrow>
                       (case subscript data ''info'' of
                          Inl e \<Rightarrow> e = x
                        | Inr info \<Rightarrow> subscript info ''version'' = Inl x))"
    and "is_Exception x"
  shows "get_latest_version_from_pypi en n lg
          = (Inr PyNone,
             lg @ [(ERROR, ''Error fetching latest version from PyPI for '' @ quoted n @ '': ''
                             @ str_exn x)])"
  using assms
  by (auto simp: get_latest_version_from_pypi_def Let_def pypi_handler_def logging_log_def
      split: sum.splits)

lemma get_latest_status:
  assumes "requests_get en (''https://pypi.org/pypi/'' @ n @ ''/json'') = Inr resp"
    and "status_code resp \<noteq> 200"
  shows "get_latest_version_from_pypi en n lg
          = (Inr PyNone,
             lg @ [(WARNING, ''Failed to get latest version for '' @ quoted n
                               @ '' from PyPI. Status code: '' @ str_int (status_code resp))])"
  using assms by (simp add: get_latest_version_from_pypi_def Let_def logging_log_def)

lemma logging_log_emitted:
  "levelno INFO \<le> levelno lvl \<Longrightarrow> logging_log lvl msg lg = lg @ [(lvl, msg)]"
  by (simp add: logging_log_def)

lemma loop_body_candidate:
  assumes "strip (rstrip_nl line) \<noteq> []"
    and "\<not> startswith (strip (rstrip_nl line)) ''#''"
    and "Requirement en (rstrip_nl line) = Inr req"
    and "specifier req = []"
    and "url req = None"
    and "get_installed_version en (name req) lg = (Inr v, lg1)"
    and "\<not> truthy v"
  shows "loop_body en line lg =
           (case get_latest_version_from_pypi en (name req) lg1 of
              (Inl e, lg2) \<Rightarrow> (Inl e, lg2)
            | (Inr latest_version, lg2) \<Rightarrow>
                if truthy latest_version
                then (Inr (reconstruct req (Some ''=='') latest_version), lg2)
                else (Inr (rstrip_nl line),
                      lg2 @ [(WARNING, ''Could not find '' @ quoted (name req) @ '' on PyPI.'')]))"
  using assms by (simp add: loop_body_def Let_def logging_log_def split: prod.splits sum.splits)

section \<open>Lines passed through\<close>

text \<open>
  Claim C2.  A line that is blank, or a comment (the stripped line starts with \<^verbatim>\<open>#\<close>),
  or that the parser rejects, or that carries a URL (the parser gives a non-empty URL
  for a direct reference), or that carries a version specifier, whatever the registry
  answers for its package (a version, not found, or another \<^verbatim>\<open>Exception\<close>), is appended
  to the output as it was read, the trailing newline aside.
\<close>

theorem pass_through_line_unchanged:
  assumes "strip (rstrip_nl line) = []
     \<or> startswith (strip (rstrip_nl line)) ''#''
     \<or> (\<exists>e. Requirement en (rstrip_nl line) = Inl e \<and> is_Exception e)
     \<or> (\<exists>req u. Requirement en (rstrip_nl line) = Inr req \<and> url req = Some u \<and> u \<noteq> [])
     \<or> (\<exists>req. Requirement en (rstrip_nl line) = Inr req \<and> specifier req \<noteq> []
            \<and> (\<forall>e. metadata_version en (name req) = Inl e \<longrightarrow> is_Exception e))"
  shows "fst (loop_body en line lg) = Inr (rstrip_nl line)"
proof -
  consider (blank) "strip (rstrip_nl line) = [] \<or> startswith (strip (rstrip_nl line)) ''#''"
    | (unparseable) e where "Requirement en (rstrip_nl line) = Inl e" "is_Exception e"
    | (url) req u where "Requirement en (rstrip_nl line) = Inr req" "url req = Some u" "u \<noteq> []"
    | (versioned) req where "Requirement en (rstrip_nl line) = Inr req" "specifier req \<noteq> []"
        "\<forall>e. metadata_version en (name req) = Inl e \<longrightarrow> is_Exception e"
    using assms by blast
  then show ?thesis
  proof cases
    case blank
    then show ?thesis by (auto simp: loop_body_def Let_def)
  next
    case unparseable
    then show ?thesis by (simp add: loop_body_def Let_def)
  next
    case url
    then show ?thesis by (simp add: loop_body_def Let_def)
  next
    case versioned
    obtain r lg1 where g: "get_installed_version en (name req) lg = (Inr r, lg1)"
      using get_installed_version_returns [OF versioned(3)] by blast
    with versioned show ?thesis by (simp add: loop_body_def Let_def)
  qed
qed

text \<open>
  A blank line, a comment, a line the parser rejects, a direct reference, a versioned
  line of a package that is not installed and one of a package that is.
\<close>

theorem pass_through_line_unchanged_witness:
  "fst (loop_body demo_env [LF] []) = Inr []
   \<and> fst (loop_body demo_env (''# pinned manually'' @ [LF]) []) = Inr ''# pinned manually''
   \<and> fst (loop_body demo_env (''-r base.txt'' @ [LF]) []) = Inr ''-r base.txt''
   \<and> fst (loop_body demo_env (''mylib @ git+https://example.com/mylib.git'' @ [LF]) [])
       = Inr ''mylib @ git+https://example.com/mylib.git''
   \<and> fst (loop_body demo_env (''flask[async]>=2.0'' @ [LF]) []) = Inr ''flask[async]>=2.0''
   \<and> fst (loop_body demo_env (''numpy==1.26.4'' @ [LF]) []) = Inr ''numpy==1.26.4''"
proof -
  have a: "strip (rstrip_nl [LF]) = []" by (simp add: rstrip_nl_def strip_def)
  have b: "startswith (strip (rstrip_nl (''# pinned manually'' @ [LF]))) ''#''"
    by (simp add: rstrip_nl_def strip_def isspace_def startswith_def)
  have c: "\<exists>e. Requirement demo_env (rstrip_nl (''-r base.txt'' @ [LF])) = Inl e \<and> is_Exception e"
    by (simp add: rstrip_nl_def demo_defs is_Exception_def)
  have d: "\<exists>req u. Requirement demo_env (rstrip_nl (''mylib @ git+https://example.com/mylib.git'' @ [LF])) = Inr req
            \<and> url req = Some u \<and> u \<noteq> []"
    by (simp add: rstrip_nl_def demo_defs)
  have e: "\<exists>req. Requirement demo_env (rstrip_nl (''flask[async]>=2.0'' @ [LF])) = Inr req
            \<and> specifier req \<noteq> []
            \<and> (\<forall>e. metadata_version demo_env (name req) = Inl e \<longrightarrow> is_Exception e)"
    by (simp add: rstrip_nl_def demo_defs is_Exception_def)
  have f: "\<exists>req. Requirement demo_env (rstrip_nl (''numpy==1.26.4'' @ [LF])) = Inr req
            \<and> specifier req \<noteq> []
            \<and> (\<forall>e. metadata_version demo_env (name req) = Inl e \<longrightarrow> is_Exception e)"
    by (simp add: rstrip_nl_def demo_defs is_Exception_def)
  show ?thesis
    using pass_through_line_unchanged [of "[LF]" demo_env "[]"] a
      pass_through_line_unchanged [of "''# pinned manually'' @ [LF]" demo_env "[]"] b
      pass_through_line_unchanged [of "''-r base.txt'' @ [LF]" demo_env "[]"] c
      pass_through_line_unchanged [of "''mylib @ git+https://example.com/mylib.git'' @ [LF]" demo_env "[]"] d
      pass_through_line_unchanged [of "''flask[async]>=2.0'' @ [LF]" demo_env "[]"] e
      pass_through_line_unchanged [of "''numpy==1.26.4'' @ [LF]" demo_env "[]"] f
    by (simp add: rstrip_nl_def)
qed

section \<open>Resolving through the index\<close>

text \<open>
  Claim C3, as amended.  Take a line that reaches the parser, parses, has no specifier
  and no URL, and for whose package the registry lookup returns no true version (not
  found, an error, \<^verbatim>\<open>None\<close> or the empty string).  If the index answers 200 with a
  non-empty string \<open>W\<close> at \<^verbatim>\<open>info.version\<close>, the line becomes the name, the extras,
  \<^verbatim>\<open>==\<close>, \<open>W\<close> and the marker.  If the request raises an \<^verbatim>\<open>Exception\<close>, or the status
  is not 200, or decoding the body raises, or \<^verbatim>\<open>info\<close> or \<^verbatim>\<open>version\<close> is missing, the
  line is appended as it was read, and the last record logged is the warning of line 116.

  \<open>W\<close> has to be non-empty: line 112 tests the version for truth (the counterexample
  below).
\<close>

theorem uninstalled_line_resolved:
  assumes "strip (rstrip_nl line) \<noteq> []"
    and "\<not> startswith (strip (rstrip_nl line)) ''#''"
    and "Requirement en (rstrip_nl line) = Inr req"
    and "specifier req = []"
    and "url req = None"
    and "get_installed_version en (name req) lg = (Inr v, lg1)"
    and "\<not> truthy v"
  shows "(\<forall>resp data info W.
            requests_get en (''https://pypi.org/pypi/'' @ name req @ ''/json'') = Inr resp
            \<and> status_code resp = 200 \<and> json resp = Inr data
            \<and> data ''info'' = Some info \<and> info ''version'' = Some (PyStr W) \<and> W \<noteq> []
            \<longrightarrow> loop_body en line lg =
                  (Inr (name req
                        @ (if extras req = [] then [] else ''['' @ join '','' (extras req) @ '']'')
                        @ ''=='' @ W
                        @ (case marker req of None \<Rightarrow> [] | Some m \<Rightarrow> ''; '' @ m)), lg1))
         \<and> ((case requests_get en (''https://pypi.org/pypi/'' @ name req @ ''/json'') of
                Inl e \<Rightarrow> is_Exception e
              | Inr resp \<Rightarrow>
                  status_code resp \<noteq> 200
                  \<or> (case json resp of
                        Inl e \<Rightarrow> is_Exception e
                      | Inr data \<Rightarrow>
                          (case data ''info'' of
                             None \<Rightarrow> True
                           | Some info \<Rightarrow> info ''version'' = None)))
            \<longrightarrow> fst (loop_body en line lg) = Inr (rstrip_nl line)
                \<and> last (snd (loop_body en line lg))
                    = (WARNING, ''Could not find '' @ quoted (name req) @ '' on PyPI.''))"
proof (intro conjI allI impI)
  fix resp data info W
  assume h: "requests_get en (''https://pypi.org/pypi/'' @ name req @ ''/json'') = Inr resp
            \<and> status_code resp = 200 \<and> json resp = Inr data
            \<and> data ''info'' = Some info \<and> info ''version'' = Some (PyStr W) \<and> W \<noteq> []"
  then have "get_latest_version_from_pypi en (name req) lg1 = (Inr (PyStr W), lg1)"
    using get_latest_found by blast
  moreover have "truthy (PyStr W)" using h by simp
  ultimately show "loop_body en line lg =
                  (Inr (name req
                        @ (if extras req = [] then [] else ''['' @ join '','' (extras req) @ '']'')
                        @ ''=='' @ W
                        @ (case marker req of None \<Rightarrow> [] | Some m \<Rightarrow> ''; '' @ m)), lg1)"
    using loop_body_candidate [OF assms] reconstruct_pinned [of "PyStr W" req] by simp
next
  assume h: "case requests_get en (''https://pypi.org/pypi/'' @ name req @ ''/json'') of
                Inl e \<Rightarrow> is_Exception e
              | Inr resp \<Rightarrow>
                  status_code resp \<noteq> 200
                  \<or> (case json resp of
                        Inl e \<Rightarrow> is_Exception e
                      | Inr data \<Rightarrow>
                          (case data ''info'' of
                             None \<Rightarrow> True
                           | Some info \<Rightarrow> info ''version'' = None))"
  obtain lg2 where "get_latest_version_from_pypi en (name req) lg1 = (Inr PyNone, lg2)"
    using get_latest_none [OF h] by blast
  then have "loop_body en line lg =
      (Inr (rstrip_nl line), lg2 @ [(WARNING, ''Could not find '' @ quoted (name req) @ '' on PyPI.'')])"
    using loop_body_candidate [OF assms] by simp
  then show "fst (loop_body en line lg) = Inr (rstrip_nl line)"
    and "last (snd (loop_body en line lg))
                    = (WARNING, ''Could not find '' @ quoted (name req) @ '' on PyPI.'')"
    by simp_all
qed

text \<open>
  requests is not installed: with the index serving 2.32.3 the line is pinned, extras and
  marker kept; with the index answering 404 it is left as it was and the warning is logged.
\<close>

theorem uninstalled_line_resolved_witness:
  "loop_body demo_env (requests_line @ [LF]) []
     = (Inr (''requests[socks,security]==2.32.3; python_version < '' @ [DQ] @ ''3.9'' @ [DQ]), [])
   \<and> fst (loop_body (demo_env\<lparr>requests_get := (\<lambda>u. Inr not_found)\<rparr>) (requests_line @ [LF]) [])
       = Inr requests_line
   \<and> last (snd (loop_body (demo_env\<lparr>requests_get := (\<lambda>u. Inr not_found)\<rparr>) (requests_line @ [LF]) []))
       = (WARNING, ''Could not find '' @ quoted ''requests'' @ '' on PyPI.'')"
proof -
  have r: "rstrip_nl (requests_line @ [LF]) = requests_line"
    by (simp add: rstrip_nl_def requests_line_def)
  have h1: "strip (rstrip_nl (requests_line @ [LF])) \<noteq> []"
    unfolding r by (simp add: requests_line_def strip_def isspace_def)
  have h2: "\<not> startswith (strip (rstrip_nl (requests_line @ [LF]))) ''#''"
    unfolding r by (simp add: requests_line_def strip_def isspace_def startswith_def)
  have h3: "Requirement (demo_env\<lparr>requests_get := g\<rparr>) (rstrip_nl (requests_line @ [LF])) = Inr requests_req" for g
    unfolding r by (simp add: demo_env_def demo_Requirement_def requests_line_def)
  have h4: "specifier requests_req = []" and h5: "url requests_req = None"
    by (simp_all add: requests_req_def)
  have h6: "get_installed_version (demo_env\<lparr>requests_get := g\<rparr>) (name requests_req) [] = (Inr PyNone, [])" for g
    by (simp add: get_installed_version_def demo_defs logging_log_def)
  have h7: "\<not> truthy PyNone" by simp
  have a: "requests_get demo_env (''https://pypi.org/pypi/'' @ name requests_req @ ''/json'') = Inr (found ''2.32.3'')
            \<and> status_code (found ''2.32.3'') = 200
            \<and> json (found ''2.32.3'') = Inr [''info'' \<mapsto> [''version'' \<mapsto> PyStr ''2.32.3'']]
            \<and> [''info'' \<mapsto> [''version'' \<mapsto> PyStr ''2.32.3'']] ''info'' = Some [''version'' \<mapsto> PyStr ''2.32.3'']
            \<and> [''version'' \<mapsto> PyStr ''2.32.3''] ''version'' = Some (PyStr ''2.32.3'') \<and> ''2.32.3'' \<noteq> []"
    by (simp add: demo_defs)
  have b: "case requests_get (demo_env\<lparr>requests_get := (\<lambda>u. Inr not_found)\<rparr>)
                  (''https://pypi.org/pypi/'' @ name requests_req @ ''/json'') of
                Inl e \<Rightarrow> is_Exception e
              | Inr resp \<Rightarrow>
                  status_code resp \<noteq> 200
                  \<or> (case json resp of
                        Inl e \<Rightarrow> is_Exception e
                      | Inr data \<Rightarrow>
                          (case data ''info'' of
                             None \<Rightarrow> True
                           | Some info \<Rightarrow> info ''version'' = None))"
    by (simp add: not_found_def)
  have d: "demo_env\<lparr>requests_get := requests_get demo_env\<rparr> = demo_env" by simp
  from uninstalled_line_resolved [OF h1 h2 h3 h4 h5 h6 h7, of "requests_get demo_env"] a
    uninstalled_line_resolved [OF h1 h2 h3 h4 h5 h6 h7, of "\<lambda>u. Inr not_found"] b
  show ?thesis unfolding d r by (simp add: requests_req_def)
qed

text \<open>
  The claim as stated fails when the index reports the empty string at
  \<^verbatim>\<open>info.version\<close> with status 200: the line \<^verbatim>\<open>numpy\<close> is not rewritten to \<^verbatim>\<open>numpy==\<close>
  but left as it was.
\<close>

theorem uninstalled_line_counterexample:
  "strip (rstrip_nl ''numpy'') \<noteq> []
   \<and> \<not> startswith (strip (rstrip_nl ''numpy'')) ''#''
   \<and> Requirement empty_remote_env (rstrip_nl ''numpy'') = Inr numpy_req
   \<and> specifier numpy_req = [] \<and> url numpy_req = None \<and> extras numpy_req = []
   \<and> marker numpy_req = None
   \<and> metadata_version empty_remote_env (name numpy_req) = Inl (no_package ''numpy'')
   \<and> class_of (no_package ''numpy'') = PackageNotFoundError
   \<and> requests_get empty_remote_env (''https://pypi.org/pypi/'' @ name numpy_req @ ''/json'')
       = Inr (found [])
   \<and> status_code (found []) = 200
   \<and> json (found []) = Inr [''info'' \<mapsto> [''version'' \<mapsto> PyStr []]]
   \<and> fst (loop_body empty_remote_env ''numpy'' []) = Inr ''numpy''
   \<and> ''numpy'' \<noteq> name numpy_req @ ''=='' @ []"
  by (simp add: demo_defs eval_defs)

section \<open>Empty version strings\<close>

text \<open>
  Claim C10.  For a line that reaches the parser, parses, and has no specifier and no URL:
  when the registry returns the empty string as the version, the loop does what the
  index lookup decides, exactly as it does when the registry raises
  \<^verbatim>\<open>PackageNotFoundError\<close>; and when no true version is installed and the index answers
  200 with the empty string at \<^verbatim>\<open>info.version\<close>, the line is appended as it was read,
  after the warning of line 116.
\<close>

theorem empty_versions_are_false:
  assumes "strip (rstrip_nl line) \<noteq> []"
    and "\<not> startswith (strip (rstrip_nl line)) ''#''"
    and "Requirement en (rstrip_nl line) = Inr req"
    and "specifier req = []"
    and "url req = None"
  shows "(metadata_version en (name req) = Inr (PyStr [])
          \<longrightarrow> loop_body en line lg =
                (case get_latest_version_from_pypi en (name req) lg of
                   (Inl e, lg2) \<Rightarrow> (Inl e, lg2)
                 | (Inr latest_version, lg2) \<Rightarrow>
                     if truthy latest_version
                     then (Inr (reconstruct req (Some ''=='') latest_version), lg2)
                     else (Inr (rstrip_nl line),
                           lg2 @ [(WARNING, ''Could not find '' @ quoted (name req) @ '' on PyPI.'')]))
              \<and> loop_body en line lg =
                  loop_body (en\<lparr>metadata_version :=
                                  (\<lambda>n. Inl (Exn PackageNotFoundError m))\<rparr>) line lg)
         \<and> (get_installed_version en (name req) lg = (Inr v, lg1) \<and> \<not> truthy v
            \<and> requests_get en (''https://pypi.org/pypi/'' @ name req @ ''/json'') = Inr resp
            \<and> status_code resp = 200 \<and> json resp = Inr data
            \<and> data ''info'' = Some info \<and> info ''version'' = Some (PyStr [])
          \<longrightarrow> loop_body en line lg =
                (Inr (rstrip_nl line),
                 lg1 @ [(WARNING, ''Could not find '' @ quoted (name req) @ '' on PyPI.'')]))"
proof (intro conjI impI)
  assume h: "metadata_version en (name req) = Inr (PyStr [])"
  then have i: "get_installed_version en (name req) lg = (Inr (PyStr []), lg)"
    by (simp add: get_installed_version_def)
  have f: "\<not> truthy (PyStr [])" by simp
  show a: "loop_body en line lg =
                (case get_latest_version_from_pypi en (name req) lg of
                   (Inl e, lg2) \<Rightarrow> (Inl e, lg2)
                 | (Inr latest_version, lg2) \<Rightarrow>
                     if truthy latest_version
                     then (Inr (reconstruct req (Some ''=='') latest_version), lg2)
                     else (Inr (rstrip_nl line),
                           lg2 @ [(WARNING, ''Could not find '' @ quoted (name req) @ '' on PyPI.'')]))"
    by (rule loop_body_candidate [OF assms i f])
  let ?en = "en\<lparr>metadata_version := (\<lambda>n. Inl (Exn PackageNotFoundError m))\<rparr>"
  have i': "get_installed_version ?en (name req) lg = (Inr PyNone, lg)"
    by (simp add: get_installed_version_def logging_log_def)
  have f': "\<not> truthy PyNone" by simp
  have p: "get_latest_version_from_pypi ?en n l = get_latest_version_from_pypi en n l" for n l
    by (simp add: get_latest_version_from_pypi_def)
  have "Requirement ?en (rstrip_nl line) = Inr req" using assms(3) by simp
  from loop_body_candidate [OF assms(1,2) this assms(4,5) i' f']
  show "loop_body en line lg = loop_body ?en line lg"
    unfolding a p by simp
next
  assume h: "get_installed_version en (name req) lg = (Inr v, lg1) \<and> \<not> truthy v
            \<and> requests_get en (''https://pypi.org/pypi/'' @ name req @ ''/json'') = Inr resp
            \<and> status_code resp = 200 \<and> json resp = Inr data
            \<and> data ''info'' = Some info \<and> info ''version'' = Some (PyStr [])"
  then have "get_latest_version_from_pypi en (name req) lg1 = (Inr (PyStr []), lg1)"
    using get_latest_found by blast
  with h loop_body_candidate [OF assms, of lg v lg1]
  show "loop_body en line lg =
                (Inr (rstrip_nl line),
                 lg1 @ [(WARNING, ''Could not find '' @ quoted (name req) @ '' on PyPI.'')])"
    by simp
qed

text \<open>
  With the registry answering the empty string, numpy is pinned to what the index serves;
  with the index answering the empty string, the line is left as it was.
\<close>

theorem empty_versions_are_false_witness:
  "loop_body empty_local_env ''numpy'' [] = (Inr ''numpy==2.3.4'', [])
   \<and> loop_body empty_local_env ''numpy'' []
       = loop_body (empty_local_env\<lparr>metadata_version := (\<lambda>n. Inl (Exn PackageNotFoundError []))\<rparr>)
           ''numpy'' []
   \<and> loop_body empty_remote_env ''numpy'' []
       = (Inr ''numpy'', [(WARNING, ''Could not find '' @ quoted ''numpy'' @ '' on PyPI.'')])"
proof -
  have r: "rstrip_nl ''numpy'' = ''numpy''" by (simp add: rstrip_nl_def)
  have h1: "strip (rstrip_nl ''numpy'') \<noteq> []"
    and h2: "\<not> startswith (strip (rstrip_nl ''numpy'')) ''#''"
    by (simp_all add: rstrip_nl_def strip_def isspace_def startswith_def)
  have h3: "Requirement empty_local_env (rstrip_nl ''numpy'') = Inr numpy_req"
    and h3': "Requirement empty_remote_env (rstrip_nl ''numpy'') = Inr numpy_req"
    by (simp_all add: demo_defs rstrip_nl_def)
  have h4: "specifier numpy_req = []" and h5: "url numpy_req = None"
    by (simp_all add: numpy_req_def)
  have a: "metadata_version empty_local_env (name numpy_req) = Inr (PyStr [])"
    by (simp add: demo_defs)
  have l: "get_latest_version_from_pypi empty_local_env (name numpy_req) []
             = (Inr (PyStr ''2.3.4''), [])"
    by (simp add: demo_defs get_latest_version_from_pypi_def subscript_def)
  have rc: "reconstruct numpy_req (Some ''=='') (PyStr ''2.3.4'') = ''numpy==2.3.4''"
    by (simp add: reconstruct_def numpy_req_def)
  have b: "get_installed_version empty_remote_env (name numpy_req) [] = (Inr PyNone, [])
            \<and> \<not> truthy PyNone
            \<and> requests_get empty_remote_env (''https://pypi.org/pypi/'' @ name numpy_req @ ''/json'')
                = Inr (found [])
            \<and> status_code (found []) = 200
            \<and> json (found []) = Inr [''info'' \<mapsto> [''version'' \<mapsto> PyStr []]]
            \<and> [''info'' \<mapsto> [''version'' \<mapsto> PyStr []]] ''info'' = Some [''version'' \<mapsto> PyStr []]
            \<and> [''version'' \<mapsto> PyStr []] ''version'' = Some (PyStr [])"
    by (simp add: demo_defs get_installed_version_def logging_log_def)
  have t: "truthy (PyStr ''2.3.4'')" by simp
  note A = empty_versions_are_false [OF h1 h2 h3 h4 h5, of "[]" "[]", THEN conjunct1, rule_format, OF a]
  note B = empty_versions_are_false [OF h1 h2 h3' h4 h5, of "[]" "[]" PyNone "[]" "found []"
      "[''info'' \<mapsto> [''version'' \<mapsto> PyStr []]]" "[''version'' \<mapsto> PyStr []]",
      THEN conjunct2, rule_format, OF b]
  have c1: "loop_body empty_local_env ''numpy'' [] = (Inr ''numpy==2.3.4'', [])"
    using A [THEN conjunct1] unfolding r l rc [symmetric] by (simp add: t)
  have c2: "loop_body empty_local_env ''numpy'' []
       = loop_body (empty_local_env\<lparr>metadata_version := (\<lambda>n. Inl (Exn PackageNotFoundError []))\<rparr>)
           ''numpy'' []"
    using A [THEN conjunct2] .
  have c3: "loop_body empty_remote_env ''numpy'' []
       = (Inr ''numpy'', [(WARNING, ''Could not find '' @ quoted ''numpy'' @ '' on PyPI.'')])"
    using B unfolding r by (simp add: numpy_req_def)
  show ?thesis using c1 c2 c3 by blast
qed

section \<open>The loop under normal operation\<close>

lemma get_latest_version_from_pypi_returns:
  assumes "normal_operation en"
  shows "\<exists>r lg2. get_latest_version_from_pypi en n lg = (Inr r, lg2)"
proof -
  let ?u = "''https://pypi.org/pypi/'' @ n @ ''/json''"
  have h: "is_Exception e \<Longrightarrow> \<exists>r lg2. pypi_handler n e lg = (Inr r, lg2)" for e
    by (simp add: pypi_handler_def)
  have k: "is_Exception (Exn OtherException m)" for m by (simp add: is_Exception_def)
  show ?thesis
  proof (cases "requests_get en ?u")
    case (Inl e)
    with assms have "is_Exception e" by (auto simp: normal_operation_def)
    with Inl h show ?thesis by (simp add: get_latest_version_from_pypi_def Let_def)
  next
    case (Inr resp)
    show ?thesis
    proof (cases "json resp")
      case (Inl e)
      with Inr assms have "is_Exception e" unfolding normal_operation_def by blast
      with Inl Inr h show ?thesis
        by (simp add: get_latest_version_from_pypi_def Let_def)
    next
      case data: (Inr data)
      with Inr h k show ?thesis
        by (auto simp: get_latest_version_from_pypi_def Let_def subscript_def
            split: option.splits)
    qed
  qed
qed

lemma loop_body_returns:
  assumes "normal_operation en"
  shows "\<exists>out lg'. loop_body en line lg = (Inr out, lg')"
proof (cases "Requirement en (rstrip_nl line)")
  case (Inl e)
  with assms have "is_Exception e" by (auto simp: normal_operation_def)
  with Inl show ?thesis by (simp add: loop_body_def Let_def)
next
  case (Inr req)
  from assms have "\<forall>e. metadata_version en (name req) = Inl e \<longrightarrow> is_Exception e"
    by (auto simp: normal_operation_def)
  from get_installed_version_returns [OF this]
  obtain r lg1 where i: "get_installed_version en (name req) lg = (Inr r, lg1)" by blast
  obtain r2 lg2 where p: "get_latest_version_from_pypi en (name req) lg1 = (Inr r2, lg2)"
    using get_latest_version_from_pypi_returns [OF assms] by blast
  show ?thesis using Inr i p by (simp add: loop_body_def Let_def)
qed

lemma loop_body_fst:
  "loop_body en line lg = (Inr out, lg') \<Longrightarrow> fst (loop_body en line lg2) = Inr out"
  by (metis loop_body_log fst_conv)

lemma for_lines_returns:
  assumes "normal_operation en"
  shows "\<exists>outs lg'. for_lines en ls updated_lines lg = (Inr (updated_lines @ outs), lg')
           \<and> list_all2 (\<lambda>line out. \<forall>lg. fst (loop_body en line lg) = Inr out) ls outs"
proof (induction ls arbitrary: updated_lines lg)
  case Nil
  show ?case by simp
next
  case (Cons line rest)
  obtain out lg1 where b: "loop_body en line lg = (Inr out, lg1)"
    using loop_body_returns [OF assms] by blast
  from Cons.IH [of "updated_lines @ [out]" lg1]
  obtain outs lg' where r: "for_lines en rest (updated_lines @ [out]) lg1
                              = (Inr ((updated_lines @ [out]) @ outs), lg')"
    and c: "list_all2 (\<lambda>line out. \<forall>lg. fst (loop_body en line lg) = Inr out) rest outs"
    by blast
  have "\<forall>lg. fst (loop_body en line lg) = Inr out" using loop_body_fst [OF b] by simp
  with b r c show ?case
    by (intro exI [of _ "out # outs"] exI [of _ lg']) simp
qed

section \<open>The whole run\<close>


subsection \<open>Text and lines\<close>














subsection \<open>The example file\<close>

lemma demo_lines:
  "file_lines [] (universal_newlines
      (''# pinned manually'' @ [LF] @ ''numpy'' @ [LF] @ ''flask[async]>=2.0'' @ [LF]))
     = [''# pinned manually'' @ [LF], ''numpy'' @ [LF], ''flask[async]>=2.0'' @ [LF]]"
  by simp


section \<open>Lookups that fail\<close>

text \<open>
  Claim C8.  When the registry raises \<^verbatim>\<open>PackageNotFoundError\<close>, the lookup returns
  \<^verbatim>\<open>None\<close> and emits no record (the message is logged at debug level, below the level
  of the root logger).  When it raises any other \<^verbatim>\<open>Exception\<close>, the lookup logs the
  error at error level and returns \<^verbatim>\<open>None\<close> as well.  When the \<^verbatim>\<open>try\<close> block of the index
  lookup raises an \<^verbatim>\<open>Exception\<close>, be it from the request, from decoding the body of a 200
  answer, or from one of the two subscripts, the lookup logs it at error level and
  returns \<^verbatim>\<open>None\<close>.  For an unversioned line without URL whose registry lookup raised,
  the loop goes on to the index; and when that raises too, under normal operation, the
  line is appended as it was read and every line that follows is still processed: the
  loop returns the lines appended so far, this line, and one output line for each of the
  following lines, the one the loop body gives for it.
\<close>

theorem lookups_fail_open:
  "(metadata_version en n1 = Inl e1 \<and> class_of e1 = PackageNotFoundError
      \<longrightarrow> get_installed_version en n1 lg = (Inr PyNone, lg))
   \<and> (metadata_version en n2 = Inl e2 \<and> class_of e2 = OtherException
      \<longrightarrow> get_installed_version en n2 lg
          = (Inr PyNone,
             lg @ [(ERROR, ''Error getting installed version for '' @ quoted n2 @ '': ''
                             @ str_exn e2)]))
   \<and> ((case requests_get en (''https://pypi.org/pypi/'' @ n3 @ ''/json'') of
          Inl e \<Rightarrow> e = e3
        | Inr resp \<Rightarrow>
            status_code resp = 200
            \<and> (case json resp of
                  Inl e \<Rightarrow> e = e3
                | Inr data \<Rightarrow>
                    (case subscript data ''info'' of
                       Inl e \<Rightarrow> e = e3
                     | Inr info \<Rightarrow> subscript info ''version'' = Inl e3)))
       \<and> is_Exception e3
      \<longrightarrow> get_latest_version_from_pypi en n3 lg
          = (Inr PyNone,
             lg @ [(ERROR, ''Error fetching latest version from PyPI for '' @ quoted n3 @ '': ''
                             @ str_exn e3)]))
   \<and> (strip (rstrip_nl line) \<noteq> [] \<and> \<not> startswith (strip (rstrip_nl line)) ''#''
       \<and> Requirement en (rstrip_nl line) = Inr req \<and> specifier req = [] \<and> url req = None
       \<and> metadata_version en (name req) = Inl e4 \<and> is_Exception e4
      \<longrightarrow> loop_body en line lg =
            (case get_latest_version_from_pypi en (name req)
                    (snd (get_installed_version en (name req) lg)) of
               (Inl e, lg2) \<Rightarrow> (Inl e, lg2)
             | (Inr latest_version, lg2) \<Rightarrow>
                 if truthy latest_version
                 then (Inr (reconstruct req (Some ''=='') latest_version), lg2)
                 else (Inr (rstrip_nl line),
                       lg2 @ [(WARNING, ''Could not find '' @ quoted (name req) @ '' on PyPI.'')]))
          \<and> ((case requests_get en (''https://pypi.org/pypi/'' @ name req @ ''/json'') of
                 Inl e \<Rightarrow> e = e5
               | Inr resp \<Rightarrow>
                   status_code resp = 200
                   \<and> (case json resp of
                         Inl e \<Rightarrow> e = e5
                       | Inr data \<Rightarrow>
                           (case subscript data ''info'' of
                              Inl e \<Rightarrow> e = e5
                            | Inr info \<Rightarrow> subscript info ''version'' = Inl e5)))
              \<and> is_Exception e5 \<and> normal_operation en
             \<longrightarrow> (\<exists>outs lg'.
                    for_lines en (line # rest) updated_lines lg
                      = (Inr (updated_lines @ rstrip_nl line # outs), lg')
                    \<and> length outs = length rest
                    \<and> (\<forall>i < length rest. \<forall>lg. fst (loop_body en (rest ! i) lg) = Inr (outs ! i)))))"
proof (intro conjI impI)
  assume "metadata_version en n1 = Inl e1 \<and> class_of e1 = PackageNotFoundError"
  then show "get_installed_version en n1 lg = (Inr PyNone, lg)"
    using get_installed_version_not_found by blast
next
  assume "metadata_version en n2 = Inl e2 \<and> class_of e2 = OtherException"
  then show "get_installed_version en n2 lg
          = (Inr PyNone,
             lg @ [(ERROR, ''Error getting installed version for '' @ quoted n2 @ '': ''
                             @ str_exn e2)])"
    using get_installed_version_error by blast
next
  assume "(case requests_get en (''https://pypi.org/pypi/'' @ n3 @ ''/json'') of
          Inl e \<Rightarrow> e = e3
        | Inr resp \<Rightarrow>
            status_code resp = 200
            \<and> (case json resp of
                  Inl e \<Rightarrow> e = e3
                | Inr data \<Rightarrow>
                    (case subscript data ''info'' of
                       Inl e \<Rightarrow> e = e3
                     | Inr info \<Rightarrow> subscript info ''version'' = Inl e3)))
       \<and> is_Exception e3"
  then show "get_latest_version_from_pypi en n3 lg
          = (Inr PyNone,
             lg @ [(ERROR, ''Error fetching latest version from PyPI for '' @ quoted n3 @ '': ''
                             @ str_exn e3)])"
    using get_latest_raises [where en = en and n = n3 and x = e3 and lg = lg] by blast
next
  assume h: "strip (rstrip_nl line) \<noteq> [] \<and> \<not> startswith (strip (rstrip_nl line)) ''#''
       \<and> Requirement en (rstrip_nl line) = Inr req \<and> specifier req = [] \<and> url req = None
       \<and> metadata_version en (name req) = Inl e4 \<and> is_Exception e4"
  then have "get_installed_version en (name req) lg
               = (Inr PyNone, snd (get_installed_version en (name req) lg))"
    by (simp add: get_installed_version_def)
  from loop_body_candidate [OF _ _ _ _ _ this] h
  show "loop_body en line lg =
            (case get_latest_version_from_pypi en (name req)
                    (snd (get_installed_version en (name req) lg)) of
               (Inl e, lg2) \<Rightarrow> (Inl e, lg2)
             | (Inr latest_version, lg2) \<Rightarrow>
                 if truthy latest_version
                 then (Inr (reconstruct req (Some ''=='') latest_version), lg2)
                 else (Inr (rstrip_nl line),
                       lg2 @ [(WARNING, ''Could not find '' @ quoted (name req) @ '' on PyPI.'')]))"
    by simp
next
  assume h: "strip (rstrip_nl line) \<noteq> [] \<and> \<not> startswith (strip (rstrip_nl line)) ''#''
       \<and> Requirement en (rstrip_nl line) = Inr req \<and> specifier req = [] \<and> url req = None
       \<and> metadata_version en (name req) = Inl e4 \<and> is_Exception e4"
    and r: "(case requests_get en (''https://pypi.org/pypi/'' @ name req @ ''/json'') of
                 Inl e \<Rightarrow> e = e5
               | Inr resp \<Rightarrow>
                   status_code resp = 200
                   \<and> (case json resp of
                         Inl e \<Rightarrow> e = e5
                       | Inr data \<Rightarrow>
                           (case subscript data ''info'' of
                              Inl e \<Rightarrow> e = e5
                            | Inr info \<Rightarrow> subscript info ''version'' = Inl e5)))
              \<and> is_Exception e5 \<and> normal_operation en"
  let ?lg1 = "snd (get_installed_version en (name req) lg)"
  from h have i: "get_installed_version en (name req) lg = (Inr PyNone, ?lg1)"
    by (simp add: get_installed_version_def)
  from r obtain lg2 where "get_latest_version_from_pypi en (name req) ?lg1 = (Inr PyNone, lg2)"
    using get_latest_raises [where en = en and n = "name req" and x = e5 and lg = ?lg1] by blast
  with loop_body_candidate [OF _ _ _ _ _ i] h
  have b: "loop_body en line lg = (Inr (rstrip_nl line),
                       lg2 @ [(WARNING, ''Could not find '' @ quoted (name req) @ '' on PyPI.'')])"
    by simp
  from r have n: "normal_operation en" by blast
  from for_lines_returns [OF n, of rest "updated_lines @ [rstrip_nl line]"
      "lg2 @ [(WARNING, ''Could not find '' @ quoted (name req) @ '' on PyPI.'')]"]
  obtain outs lg' where
    f: "for_lines en rest (updated_lines @ [rstrip_nl line])
          (lg2 @ [(WARNING, ''Could not find '' @ quoted (name req) @ '' on PyPI.'')])
         = (Inr ((updated_lines @ [rstrip_nl line]) @ outs), lg')"
    and c: "list_all2 (\<lambda>line out. \<forall>lg. fst (loop_body en line lg) = Inr out) rest outs"
    by blast
  have 1: "for_lines en (line # rest) updated_lines lg
             = (Inr (updated_lines @ rstrip_nl line # outs), lg')"
    using b f by simp
  have 2: "length outs = length rest" using c by (simp add: list_all2_lengthD)
  have 3: "\<forall>i < length rest. \<forall>lg. fst (loop_body en (rest ! i) lg) = Inr (outs ! i)"
    using c by (simp add: list_all2_conv_all_nth)
  from 1 2 3
  show "\<exists>outs lg'.
                    for_lines en (line # rest) updated_lines lg
                      = (Inr (updated_lines @ rstrip_nl line # outs), lg')
                    \<and> length outs = length rest
                    \<and> (\<forall>i < length rest. \<forall>lg. fst (loop_body en (rest ! i) lg) = Inr (outs ! i))"
    by blast
qed

text \<open>
  The registry knows nothing of flask and is broken for numpy; the request for requests is
  refused, the body for numpy cannot be decoded, the one for mylib lacks \<^verbatim>\<open>info\<close> and the
  one for flask lacks \<^verbatim>\<open>version\<close>: each lookup returns \<^verbatim>\<open>None\<close> with its record, and the
  loop goes on after the line \<^verbatim>\<open>numpy\<close> to the line that follows.
\<close>

theorem lookups_fail_open_witness:
  "get_installed_version garbled_env ''flask'' [] = (Inr PyNone, [])
   \<and> get_installed_version garbled_env ''numpy'' []
       = (Inr PyNone, [(ERROR, ''Error getting installed version for '' @ quoted ''numpy''
                                 @ '': bad metadata'')])
   \<and> get_latest_version_from_pypi garbled_env ''requests'' []
       = (Inr PyNone, [(ERROR, ''Error fetching latest version from PyPI for '' @ quoted ''requests''
                                 @ '': Connection refused'')])
   \<and> get_latest_version_from_pypi garbled_env ''numpy'' []
       = (Inr PyNone, [(ERROR, ''Error fetching latest version from PyPI for '' @ quoted ''numpy''
                                 @ '': Expecting value'')])
   \<and> get_latest_version_from_pypi garbled_env ''mylib'' []
       = (Inr PyNone, [(ERROR, ''Error fetching latest version from PyPI for '' @ quoted ''mylib''
                                 @ '': '' @ quoted ''info'')])
   \<and> get_latest_version_from_pypi garbled_env ''flask'' []
       = (Inr PyNone, [(ERROR, ''Error fetching latest version from PyPI for '' @ quoted ''flask''
                                 @ '': '' @ quoted ''version'')])
   \<and> fst (for_lines garbled_env [''numpy'' @ [LF], ''flask[async]>=2.0'' @ [LF]] [] [])
       = Inr [''numpy'', ''flask[async]>=2.0'']"
proof -
  let ?bad = "Exn OtherException ''bad metadata''"
  let ?conn = "Exn OtherException ''Connection refused''"
  let ?json = "Exn OtherException ''Expecting value''"
  let ?kinfo = "Exn OtherException (repr_str ''info'')"
  let ?kver = "Exn OtherException (repr_str ''version'')"
  have ex: "is_Exception (Exn OtherException m)" for m by (simp add: is_Exception_def)
  have a: "metadata_version garbled_env ''flask'' = Inl (no_package ''flask'')
           \<and> class_of (no_package ''flask'') = PackageNotFoundError"
    by (simp add: demo_defs)
  have b: "metadata_version garbled_env ''numpy'' = Inl ?bad \<and> class_of ?bad = OtherException"
    by (simp add: demo_defs)
  have c1: "(case requests_get garbled_env (''https://pypi.org/pypi/'' @ ''requests'' @ ''/json'') of
          Inl e \<Rightarrow> e = ?conn
        | Inr resp \<Rightarrow>
            status_code resp = 200
            \<and> (case json resp of
                  Inl e \<Rightarrow> e = ?conn
                | Inr data \<Rightarrow>
                    (case subscript data ''info'' of
                       Inl e \<Rightarrow> e = ?conn
                     | Inr info \<Rightarrow> subscript info ''version'' = Inl ?conn)))
       \<and> is_Exception ?conn"
    by (simp add: demo_defs ex)
  have c2: "(case requests_get garbled_env (''https://pypi.org/pypi/'' @ ''numpy'' @ ''/json'') of
          Inl e \<Rightarrow> e = ?json
        | Inr resp \<Rightarrow>
            status_code resp = 200
            \<and> (case json resp of
                  Inl e \<Rightarrow> e = ?json
                | Inr data \<Rightarrow>
                    (case subscript data ''info'' of
                       Inl e \<Rightarrow> e = ?json
                     | Inr info \<Rightarrow> subscript info ''version'' = Inl ?json)))
       \<and> is_Exception ?json"
    by (simp add: demo_defs ex)
  have c3: "(case requests_get garbled_env (''https://pypi.org/pypi/'' @ ''mylib'' @ ''/json'') of
          Inl e \<Rightarrow> e = ?kinfo
        | Inr resp \<Rightarrow>
            status_code resp = 200
            \<and> (case json resp of
                  Inl e \<Rightarrow> e = ?kinfo
                | Inr data \<Rightarrow>
                    (case subscript data ''info'' of
                       Inl e \<Rightarrow> e = ?kinfo
                     | Inr info \<Rightarrow> subscript info ''version'' = Inl ?kinfo)))
       \<and> is_Exception ?kinfo"
    by (simp add: demo_defs ex subscript_def)
  have c4: "(case requests_get garbled_env (''https://pypi.org/pypi/'' @ ''flask'' @ ''/json'') of
          Inl e \<Rightarrow> e = ?kver
        | Inr resp \<Rightarrow>
            status_code resp = 200
            \<and> (case json resp of
                  Inl e \<Rightarrow> e = ?kver
                | Inr data \<Rightarrow>
                    (case subscript data ''info'' of
                       Inl e \<Rightarrow> e = ?kver
                     | Inr info \<Rightarrow> subscript info ''version'' = Inl ?kver)))
       \<and> is_Exception ?kver"
    by (simp add: demo_defs ex subscript_def)
  have r: "rstrip_nl (''numpy'' @ [LF]) = ''numpy''" by (simp add: rstrip_nl_def)
  have d: "strip (rstrip_nl (''numpy'' @ [LF])) \<noteq> []
       \<and> \<not> startswith (strip (rstrip_nl (''numpy'' @ [LF]))) ''#''
       \<and> Requirement garbled_env (rstrip_nl (''numpy'' @ [LF])) = Inr numpy_req
       \<and> specifier numpy_req = [] \<and> url numpy_req = None
       \<and> metadata_version garbled_env (name numpy_req) = Inl ?bad \<and> is_Exception ?bad"
    unfolding r by (simp add: demo_defs strip_def isspace_def startswith_def ex)
  have n: "normal_operation garbled_env"
    by (simp add: normal_operation_def demo_defs is_Exception_def)
  have e: "(case requests_get garbled_env (''https://pypi.org/pypi/'' @ name numpy_req @ ''/json'') of
                 Inl e \<Rightarrow> e = ?json
               | Inr resp \<Rightarrow>
                   status_code resp = 200
                   \<and> (case json resp of
                         Inl e \<Rightarrow> e = ?json
                       | Inr data \<Rightarrow>
                           (case subscript data ''info'' of
                              Inl e \<Rightarrow> e = ?json
                            | Inr info \<Rightarrow> subscript info ''version'' = Inl ?json)))
              \<and> is_Exception ?json \<and> normal_operation garbled_env"
    using n by (simp add: demo_defs ex)
  note T = lookups_fail_open [where en = garbled_env and lg = "[]"]
  have w1: "get_installed_version garbled_env ''flask'' [] = (Inr PyNone, [])"
    using T [where ?n1.0 = "''flask''" and ?e1.0 = "no_package ''flask''",
        THEN conjunct1, rule_format, OF a] .
  have w2: "get_installed_version garbled_env ''numpy'' []
       = (Inr PyNone, [(ERROR, ''Error getting installed version for '' @ quoted ''numpy''
                                 @ '': bad metadata'')])"
    using T [where ?n2.0 = "''numpy''" and ?e2.0 = ?bad,
        THEN conjunct2, THEN conjunct1, rule_format, OF b] by simp
  have w3: "get_latest_version_from_pypi garbled_env ''requests'' []
       = (Inr PyNone, [(ERROR, ''Error fetching latest version from PyPI for '' @ quoted ''requests''
                                 @ '': Connection refused'')])"
    using T [where ?n3.0 = "''requests''" and ?e3.0 = ?conn,
        THEN conjunct2, THEN conjunct2, THEN conjunct1, rule_format, OF c1] by simp
  have w4: "get_latest_version_from_pypi garbled_env ''numpy'' []
       = (Inr PyNone, [(ERROR, ''Error fetching latest version from PyPI for '' @ quoted ''numpy''
                                 @ '': Expecting value'')])"
    using T [where ?n3.0 = "''numpy''" and ?e3.0 = ?json,
        THEN conjunct2, THEN conjunct2, THEN conjunct1, rule_format, OF c2] by simp
  have w5: "get_latest_version_from_pypi garbled_env ''mylib'' []
       = (Inr PyNone, [(ERROR, ''Error fetching latest version from PyPI for '' @ quoted ''mylib''
                                 @ '': '' @ quoted ''info'')])"
    using T [where ?n3.0 = "''mylib''" and ?e3.0 = ?kinfo,
        THEN conjunct2, THEN conjunct2, THEN conjunct1, rule_format, OF c3]
    by (simp add: repr_str_def repr_char_def printable_def quoted_def Let_def)
  have w6: "get_latest_version_from_pypi garbled_env ''flask'' []
       = (Inr PyNone, [(ERROR, ''Error fetching latest version from PyPI for '' @ quoted ''flask''
                                 @ '': '' @ quoted ''version'')])"
    using T [where ?n3.0 = "''flask''" and ?e3.0 = ?kver,
        THEN conjunct2, THEN conjunct2, THEN conjunct1, rule_format, OF c4]
    by (simp add: repr_str_def repr_char_def printable_def quoted_def Let_def)
  from T [where line = "''numpy'' @ [LF]" and req = numpy_req and ?e4.0 = ?bad and ?e5.0 = ?json
      and rest = "[''flask[async]>=2.0'' @ [LF]]" and updated_lines = "[]",
      THEN conjunct2, THEN conjunct2, THEN conjunct2, rule_format, OF d,
      THEN conjunct2, rule_format, OF e]
  obtain outs lg' where
    f: "for_lines garbled_env [''numpy'' @ [LF], ''flask[async]>=2.0'' @ [LF]] [] []
          = (Inr ([] @ rstrip_nl (''numpy'' @ [LF]) # outs), lg')"
    and l: "length outs = length [''flask[async]>=2.0'' @ [LF]]"
    and o: "\<forall>i<length [''flask[async]>=2.0'' @ [LF]].
              \<forall>lg. fst (loop_body garbled_env ([''flask[async]>=2.0'' @ [LF]] ! i) lg) = Inr (outs ! i)"
    by blast
  from o have "fst (loop_body garbled_env (''flask[async]>=2.0'' @ [LF]) []) = Inr (outs ! 0)"
    by simp
  moreover have "fst (loop_body garbled_env (''flask[async]>=2.0'' @ [LF]) []) = Inr ''flask[async]>=2.0''"
    by (simp add: demo_defs eval_defs)
  ultimately have "outs ! 0 = ''flask[async]>=2.0''" by simp
  with l have "outs = [''flask[async]>=2.0'']" by (cases outs) auto
  with f r have w7: "fst (for_lines garbled_env [''numpy'' @ [LF], ''flask[async]>=2.0'' @ [LF]] [] [])
       = Inr [''numpy'', ''flask[async]>=2.0'']"
    by simp
  show ?thesis using w1 w2 w3 w4 w5 w6 w7 by blast
qed

section \<open>No exception escapes\<close>

text \<open>
  Claim C7.  Under normal operation, where every exception raised by the parser, the
  registry, the HTTP client, the decoding of a response, and the reading and the writing
  of the file is an instance of \<^verbatim>\<open>Exception\<close>, the function returns to its caller: it
  never raises, whatever the file, the path and the answers of the collaborators.  Each
  failure is caught and handed to the logger, and the run continues or returns:
  \<^item> a parse error becomes a warning, and the line is kept;
  \<^item> a package the registry does not have becomes the debug message of line 22 (which the
    root logger, set to \<^verbatim>\<open>INFO\<close> on line 7, does not emit), and the lookup returns \<^verbatim>\<open>None\<close>;
  \<^item> any other error of the registry becomes an error record, and the lookup returns
    \<^verbatim>\<open>None\<close>;
  \<^item> an answer of the index other than 200 becomes a warning, and the lookup returns
    \<^verbatim>\<open>None\<close>;
  \<^item> an exception in the \<^verbatim>\<open>try\<close> block of the index lookup (the request, the decoding,
    the subscripts) becomes an error record, and the lookup returns \<^verbatim>\<open>None\<close>;
  \<^item> an error in reading the file becomes an error record, and the function returns
    without writing;
  \<^item> an error in writing the file becomes an error record, and the function returns.
\<close>

theorem no_exception_escapes:
  assumes "normal_operation en"
  shows "fst (update_requirements_file en requirements_file w) = Inr ()
         \<and> (strip (rstrip_nl line) \<noteq> [] \<and> \<not> startswith (strip (rstrip_nl line)) ''#''
            \<and> Requirement en (rstrip_nl line) = Inl e
            \<longrightarrow> loop_body en line lg
                = (Inr (rstrip_nl line),
                   lg @ [(WARNING, ''Could not parse the line: '' @ quoted (rstrip_nl line)
                                     @ ''. Error: '' @ str_exn e)]))
         \<and> (metadata_version en n = Inl e1 \<and> class_of e1 = PackageNotFoundError
            \<longrightarrow> get_installed_version en n lg
                = (Inr PyNone,
                   logging_log DEBUG (''Package '' @ quoted n @ '' is not installed.'') lg))
         \<and> (metadata_version en n = Inl e1 \<and> class_of e1 \<noteq> PackageNotFoundError
            \<longrightarrow> get_installed_version en n lg
                = (Inr PyNone,
                   lg @ [(ERROR, ''Error getting installed version for '' @ quoted n @ '': ''
                                   @ str_exn e1)]))
         \<and> (requests_get en (''https://pypi.org/pypi/'' @ n @ ''/json'') = Inr resp
            \<and> status_code resp \<noteq> 200
            \<longrightarrow> get_latest_version_from_pypi en n lg
                = (Inr PyNone,
                   lg @ [(WARNING, ''Failed to get latest version for '' @ quoted n
                                     @ '' from PyPI. Status code: ''
                                     @ str_int (status_code resp))]))
         \<and> ((case requests_get en (''https://pypi.org/pypi/'' @ n @ ''/json'') of
                Inl x \<Rightarrow> x = e2
              | Inr r \<Rightarrow>
                  status_code r = 200
                  \<and> (case json r of
                        Inl x \<Rightarrow> x = e2
                      | Inr data \<Rightarrow>
                          (case subscript data ''info'' of
                             Inl x \<Rightarrow> x = e2
                           | Inr info \<Rightarrow> subscript info ''version'' = Inl e2)))
            \<longrightarrow> get_latest_version_from_pypi en n lg
                = (Inr PyNone,
                   lg @ [(ERROR, ''Error fetching latest version from PyPI for '' @ quoted n
                                   @ '': '' @ str_exn e2)]))
         \<and> (snd (read_lines en requirements_file w) = Some e3
            \<longrightarrow> (\<exists>lg3. update_requirements_file en requirements_file w
                         = (Inr (),
                            w\<lparr>logged := lg3 @ [(ERROR, ''Error processing requirements file: ''
                                                        @ str_exn e3)]\<rparr>)))
         \<and> (read_phase en requirements_file w = (Inr updated_lines, lg')
            \<and> (write_error en requirements_file = Some (OpenFailed e')
                \<or> write_error en requirements_file = Some (WriteFailed k e'))
            \<longrightarrow> fst (update_requirements_file en requirements_file w) = Inr ()
                \<and> logged (snd (update_requirements_file en requirements_file w))
                    = lg' @ [(ERROR, ''Error writing to requirements file: '' @ str_exn e')])"
proof (intro conjI impI)
  obtain ls err where rl: "read_lines en requirements_file w = (ls, err)"
    by (cases "read_lines en requirements_file w")
  have err: "is_Exception x" if "err = Some x" for x
    using rl that assms
    by (auto simp: read_lines_def normal_operation_def is_Exception_def
        split: option.splits)
  obtain outs lg where fl: "for_lines en ls [] (logged w) = (Inr outs, lg)"
    using for_lines_returns [OF assms, of ls "[]" "logged w"] by auto
  show ret: "fst (update_requirements_file en requirements_file w) = Inr ()"
  proof (cases err)
    case (Some x)
    with rl fl err [OF Some] show ?thesis
      by (simp add: update_requirements_file_def read_phase_def)
  next
    case None
    have wp: "case write_phase en requirements_file outs (w\<lparr>logged := lg\<rparr>) of
                (Inl x, w1) \<Rightarrow> is_Exception x | (Inr u, w1) \<Rightarrow> True"
      using assms
      by (auto simp: write_phase_def normal_operation_def Let_def
          split: option.splits write_fault.splits)
    with rl fl None show ?thesis
      by (auto simp: update_requirements_file_def read_phase_def split: prod.splits sum.splits)
  qed
  then show "fst (update_requirements_file en requirements_file w) = Inr ()" .
next
  assume h: "strip (rstrip_nl line) \<noteq> [] \<and> \<not> startswith (strip (rstrip_nl line)) ''#''
            \<and> Requirement en (rstrip_nl line) = Inl e"
  with assms have "is_Exception e" by (auto simp: normal_operation_def)
  with h show "loop_body en line lg
                = (Inr (rstrip_nl line),
                   lg @ [(WARNING, ''Could not parse the line: '' @ quoted (rstrip_nl line)
                                     @ ''. Error: '' @ str_exn e)])"
    by (simp add: loop_body_def Let_def logging_log_def)
next
  assume "metadata_version en n = Inl e1 \<and> class_of e1 = PackageNotFoundError"
  then show "get_installed_version en n lg
                = (Inr PyNone,
                   logging_log DEBUG (''Package '' @ quoted n @ '' is not installed.'') lg)"
    by (simp add: get_installed_version_def)
next
  assume h: "metadata_version en n = Inl e1 \<and> class_of e1 \<noteq> PackageNotFoundError"
  with assms have "is_Exception e1" by (auto simp: normal_operation_def)
  with h show "get_installed_version en n lg
                = (Inr PyNone,
                   lg @ [(ERROR, ''Error getting installed version for '' @ quoted n @ '': ''
                                   @ str_exn e1)])"
    by (simp add: get_installed_version_def logging_log_def)
next
  assume "requests_get en (''https://pypi.org/pypi/'' @ n @ ''/json'') = Inr resp
            \<and> status_code resp \<noteq> 200"
  then show "get_latest_version_from_pypi en n lg
                = (Inr PyNone,
                   lg @ [(WARNING, ''Failed to get latest version for '' @ quoted n
                                     @ '' from PyPI. Status code: ''
                                     @ str_int (status_code resp))])"
    using get_latest_status by blast
next
  assume h: "case requests_get en (''https://pypi.org/pypi/'' @ n @ ''/json'') of
                Inl x \<Rightarrow> x = e2
              | Inr r \<Rightarrow>
                  status_code r = 200
                  \<and> (case json r of
                        Inl x \<Rightarrow> x = e2
                      | Inr data \<Rightarrow>
                          (case subscript data ''info'' of
                             Inl x \<Rightarrow> x = e2
                           | Inr info \<Rightarrow> subscript info ''version'' = Inl e2))"
  have k: "is_Exception (Exn OtherException m)" for m by (simp add: is_Exception_def)
  have "is_Exception e2"
  proof (cases "requests_get en (''https://pypi.org/pypi/'' @ n @ ''/json'')")
    case (Inl x)
    with h assms show ?thesis unfolding normal_operation_def by auto
  next
    case (Inr r)
    show ?thesis
    proof (cases "json r")
      case (Inl x)
      with Inr h have "json r = Inl e2" by simp
      with Inr assms show ?thesis unfolding normal_operation_def by blast
    next
      case data: (Inr data)
      with Inr h k show ?thesis
        by (auto simp: subscript_def split: option.splits)
    qed
  qed
  with h show "get_latest_version_from_pypi en n lg
                = (Inr PyNone,
                   lg @ [(ERROR, ''Error fetching latest version from PyPI for '' @ quoted n
                                   @ '': '' @ str_exn e2)])"
    using get_latest_raises [where en = en and n = n and x = e2 and lg = lg] by blast
next
  assume h: "snd (read_lines en requirements_file w) = Some e3"
  obtain ls where rl: "read_lines en requirements_file w = (ls, Some e3)"
    using h by (cases "read_lines en requirements_file w") simp
  have ex: "is_Exception e3"
    using rl assms
    by (auto simp: read_lines_def normal_operation_def is_Exception_def
        split: option.splits)
  obtain outs lg where fl: "for_lines en ls [] (logged w) = (Inr outs, lg)"
    using for_lines_returns [OF assms, of ls "[]" "logged w"] by auto
  have "read_phase en requirements_file w = (Inl e3, lg)"
    using rl fl by (simp add: read_phase_def)
  with ex
  have "update_requirements_file en requirements_file w
          = (Inr (), w\<lparr>logged := lg @ [(ERROR, ''Error processing requirements file: ''
                                                 @ str_exn e3)]\<rparr>)"
    by (simp add: update_requirements_file_def logging_log_def)
  then show "\<exists>lg3. update_requirements_file en requirements_file w
                         = (Inr (),
                            w\<lparr>logged := lg3 @ [(ERROR, ''Error processing requirements file: ''
                                                        @ str_exn e3)]\<rparr>)"
    by (intro exI [of _ lg])
next
  assume h: "read_phase en requirements_file w = (Inr updated_lines, lg')
            \<and> (write_error en requirements_file = Some (OpenFailed e')
                \<or> write_error en requirements_file = Some (WriteFailed k e'))"
  with assms have "is_Exception e'" unfolding normal_operation_def by blast
  with h show "logged (snd (update_requirements_file en requirements_file w))
                    = lg' @ [(ERROR, ''Error writing to requirements file: '' @ str_exn e')]"
    by (auto simp: update_requirements_file_def write_phase_def Let_def logging_log_def)
qed

text \<open>
  With a broken registry, the network down and the disk full: a line the parser rejects is
  kept with a warning, the failed write is logged, and the lookups return \<^verbatim>\<open>None\<close>, silently
  for a package that is not there and with an error record otherwise.  With a file that
  stops decoding: a 404 from the index is logged as a warning, and the error in reading
  is logged and the function returns.
\<close>

theorem no_exception_escapes_witness:
  "normal_operation full_disk_env
   \<and> update_requirements_file full_disk_env ''requirements.txt''
        \<lparr>files = [''requirements.txt'' \<mapsto> ''-r base.txt'' @ [LF]], logged = []\<rparr>
       = (Inr (),
          \<lparr>files = [''requirements.txt'' \<mapsto> ''-r ''],
           logged =
             [(WARNING, ''Could not parse the line: '' @ quoted ''-r base.txt''
                 @ ''. Error: Expected package name at the start of dependency specifier''),
              (ERROR, ''Error writing to requirements file: [Errno 28] No space left on device'')]\<rparr>)
   \<and> get_installed_version full_disk_env ''flask'' [] = (Inr PyNone, [])
   \<and> get_installed_version full_disk_env ''numpy'' []
       = (Inr PyNone, [(ERROR, ''Error getting installed version for '' @ quoted ''numpy''
                                 @ '': bad metadata'')])
   \<and> get_latest_version_from_pypi full_disk_env ''numpy'' []
       = (Inr PyNone, [(ERROR, ''Error fetching latest version from PyPI for '' @ quoted ''numpy''
                                 @ '': Connection refused'')])
   \<and> normal_operation bad_encoding_env
   \<and> get_latest_version_from_pypi bad_encoding_env ''flask'' []
       = (Inr PyNone, [(WARNING, ''Failed to get latest version for '' @ quoted ''flask''
                                   @ '' from PyPI. Status code: 404'')])
   \<and> (\<exists>lg3. update_requirements_file bad_encoding_env ''requirements.txt'' demo_world
               = (Inr (),
                  demo_world\<lparr>logged :=
                    lg3 @ [(ERROR, ''Error processing requirements file: invalid start byte'')]\<rparr>))"
proof -
  let ?w = "\<lparr>files = [''requirements.txt'' \<mapsto> ''-r base.txt'' @ [LF]], logged = []\<rparr>"
  let ?p = "Exn OtherException ''Expected package name at the start of dependency specifier''"
  let ?d = "Exn OtherException ''[Errno 28] No space left on device''"
  let ?bad = "Exn OtherException ''bad metadata''"
  let ?conn = "Exn OtherException ''Connection refused''"
  let ?dec = "Exn OtherException ''invalid start byte''"
  let ?m = "(WARNING, ''Could not parse the line: '' @ quoted ''-r base.txt''
                 @ ''. Error: Expected package name at the start of dependency specifier'')"
  have a: "normal_operation full_disk_env"
    by (simp add: normal_operation_def demo_defs is_Exception_def)
  have b: "normal_operation bad_encoding_env"
    by (simp add: normal_operation_def demo_defs is_Exception_def)
  have r: "rstrip_nl (''-r base.txt'' @ [LF]) = ''-r base.txt''" by (simp add: rstrip_nl_def)
  have h1: "strip (rstrip_nl (''-r base.txt'' @ [LF])) \<noteq> []
            \<and> \<not> startswith (strip (rstrip_nl (''-r base.txt'' @ [LF]))) ''#''
            \<and> Requirement full_disk_env (rstrip_nl (''-r base.txt'' @ [LF])) = Inl ?p"
    unfolding r by (simp add: strip_def isspace_def startswith_def demo_defs)
  note T = no_exception_escapes [OF a, where requirements_file = "''requirements.txt''" and w = ?w
      and lg = "[]"]
  note U = no_exception_escapes [OF b, where requirements_file = "''requirements.txt''"
      and w = demo_world and lg = "[]"]
  have lb: "loop_body full_disk_env (''-r base.txt'' @ [LF]) [] = (Inr ''-r base.txt'', [?m])"
    using T [where line = "''-r base.txt'' @ [LF]" and e = ?p,
        THEN conjunct2, THEN conjunct1, rule_format, OF h1] unfolding r by simp
  have h2: "read_phase full_disk_env ''requirements.txt'' ?w = (Inr [''-r base.txt''], [?m])
            \<and> (write_error full_disk_env ''requirements.txt'' = Some (OpenFailed ?d)
                \<or> write_error full_disk_env ''requirements.txt'' = Some (WriteFailed 3 ?d))"
    using lb by (simp add: read_phase_def read_lines_def demo_defs)
  have lg: "fst (update_requirements_file full_disk_env ''requirements.txt'' ?w) = Inr ()
            \<and> logged (snd (update_requirements_file full_disk_env ''requirements.txt'' ?w))
                = [?m] @ [(ERROR, ''Error writing to requirements file: '' @ str_exn ?d)]"
    using T [where updated_lines = "[''-r base.txt'']" and lg' = "[?m]" and e' = ?d and k = 3,
        THEN conjunct2, THEN conjunct2, THEN conjunct2, THEN conjunct2, THEN conjunct2,
        THEN conjunct2, THEN conjunct2, rule_format, OF h2] .
  have fs: "files (snd (update_requirements_file full_disk_env ''requirements.txt'' ?w))
              = [''requirements.txt'' \<mapsto> ''-r '']"
    using h2 by (simp add: update_requirements_file_def write_phase_def demo_defs is_Exception_def)
  have c1: "update_requirements_file full_disk_env ''requirements.txt'' ?w
       = (Inr (),
          \<lparr>files = [''requirements.txt'' \<mapsto> ''-r ''],
           logged =
             [?m, (ERROR, ''Error writing to requirements file: [Errno 28] No space left on device'')]\<rparr>)"
    using lg fs
    by (cases "update_requirements_file full_disk_env ''requirements.txt'' ?w") auto
  have h3: "metadata_version full_disk_env ''flask'' = Inl (no_package ''flask'')
            \<and> class_of (no_package ''flask'') = PackageNotFoundError"
    by (simp add: demo_defs)
  have c2: "get_installed_version full_disk_env ''flask'' [] = (Inr PyNone, [])"
    using T [where n = "''flask''" and ?e1.0 = "no_package ''flask''",
        THEN conjunct2, THEN conjunct2, THEN conjunct1, rule_format, OF h3]
    by (simp add: logging_log_def)
  have h4: "metadata_version full_disk_env ''numpy'' = Inl ?bad
            \<and> class_of ?bad \<noteq> PackageNotFoundError"
    by (simp add: demo_defs)
  have c3: "get_installed_version full_disk_env ''numpy'' []
       = (Inr PyNone, [(ERROR, ''Error getting installed version for '' @ quoted ''numpy''
                                 @ '': bad metadata'')])"
    using T [where n = "''numpy''" and ?e1.0 = ?bad,
        THEN conjunct2, THEN conjunct2, THEN conjunct2, THEN conjunct1, rule_format, OF h4]
    by simp
  have h5: "case requests_get full_disk_env (''https://pypi.org/pypi/'' @ ''numpy'' @ ''/json'') of
                Inl x \<Rightarrow> x = ?conn
              | Inr r \<Rightarrow>
                  status_code r = 200
                  \<and> (case json r of
                        Inl x \<Rightarrow> x = ?conn
                      | Inr data \<Rightarrow>
                          (case subscript data ''info'' of
                             Inl x \<Rightarrow> x = ?conn
                           | Inr info \<Rightarrow> subscript info ''version'' = Inl ?conn))"
    by (simp add: demo_defs)
  have c4: "get_latest_version_from_pypi full_disk_env ''numpy'' []
       = (Inr PyNone, [(ERROR, ''Error fetching latest version from PyPI for '' @ quoted ''numpy''
                                 @ '': Connection refused'')])"
    using T [where n = "''numpy''" and ?e2.0 = ?conn,
        THEN conjunct2, THEN conjunct2, THEN conjunct2, THEN conjunct2, THEN conjunct2,
        THEN conjunct1, rule_format, OF h5]
    by simp
  have h6: "requests_get bad_encoding_env (''https://pypi.org/pypi/'' @ ''flask'' @ ''/json'')
              = Inr not_found
            \<and> status_code not_found \<noteq> 200"
    by (simp add: demo_defs)
  have s404: "str_int 404 = ''404''" by (simp add: str_int_def) code_simp
  have c5: "get_latest_version_from_pypi bad_encoding_env ''flask'' []
       = (Inr PyNone, [(WARNING, ''Failed to get latest version for '' @ quoted ''flask''
                                   @ '' from PyPI. Status code: 404'')])"
    using U [where n = "''flask''" and resp = not_found,
        THEN conjunct2, THEN conjunct2, THEN conjunct2, THEN conjunct2, THEN conjunct1,
        rule_format, OF h6]
    by (simp add: not_found_def s404)
  have h7: "snd (read_lines bad_encoding_env ''requirements.txt'' demo_world) = Some ?dec"
    by (simp add: read_lines_def demo_defs)
  have c6: "\<exists>lg3. update_requirements_file bad_encoding_env ''requirements.txt'' demo_world
               = (Inr (),
                  demo_world\<lparr>logged :=
                    lg3 @ [(ERROR, ''Error processing requirements file: invalid start byte'')]\<rparr>)"
    using U [where ?e3.0 = ?dec,
        THEN conjunct2, THEN conjunct2, THEN conjunct2, THEN conjunct2, THEN conjunct2,
        THEN conjunct2, THEN conjunct1, rule_format, OF h7]
    by simp
  show ?thesis using a b c1 c2 c3 c4 c5 c6 by blast
qed

section \<open>Order preservation\<close>

text \<open>
  Claim C5.  Under normal operation, with the file present and no fault in reading or
  writing it, the run appends one line for each line read: the list of output lines has
  the length of the list of input lines, the output line at each position is what the
  loop body gives for the input line at that position, which is the input line itself or
  the line rebuilt with \<^verbatim>\<open>==\<close>, and the text written is the output lines joined by one
  newline character, followed by one newline.
\<close>

theorem order_preserved:
  assumes "normal_operation en"
    and "files w requirements_file = Some text"
    and "read_error en requirements_file = None"
    and "write_error en requirements_file = None"
  shows "\<exists>updated_lines lg'.
           update_requirements_file en requirements_file w
             = (Inr (), \<lparr>files = (files w)(requirements_file \<mapsto> join [LF] updated_lines @ [LF]),
                        logged = lg'\<rparr>)
           \<and> length updated_lines = length (file_lines [] (universal_newlines text))
           \<and> (\<forall>i < length updated_lines.
                 (\<forall>lg. fst (loop_body en (file_lines [] (universal_newlines text) ! i) lg)
                         = Inr (updated_lines ! i))
                 \<and> (updated_lines ! i = rstrip_nl (file_lines [] (universal_newlines text) ! i)
                    \<or> (\<exists>req v. Requirement en (rstrip_nl (file_lines [] (universal_newlines text) ! i))
                                  = Inr req \<and> truthy v
                               \<and> updated_lines ! i = reconstruct req (Some ''=='') v)))"
proof -
  let ?ls = "file_lines [] (universal_newlines text)"
  have rl: "read_lines en requirements_file w = (?ls, None)"
    using assms(2,3) by (simp add: read_lines_def)
  obtain outs lg' where fl: "for_lines en ?ls [] (logged w) = (Inr outs, lg')"
    and c: "list_all2 (\<lambda>line out. \<forall>lg. fst (loop_body en line lg) = Inr out) ?ls outs"
    using for_lines_returns [OF assms(1), of ?ls "[]" "logged w"] by auto
  have u: "update_requirements_file en requirements_file w
             = (Inr (), \<lparr>files = (files w)(requirements_file \<mapsto> join [LF] outs @ [LF]),
                        logged = lg'\<rparr>)"
    using rl fl assms(4)
    by (simp add: update_requirements_file_def read_phase_def write_phase_def Let_def)
  have len: "length outs = length ?ls" using c by (simp add: list_all2_lengthD)
  have nth: "\<forall>lg. fst (loop_body en (?ls ! i) lg) = Inr (outs ! i)" if "i < length outs" for i
    using c that len by (simp add: list_all2_conv_all_nth)
  have cases: "outs ! i = rstrip_nl (?ls ! i)
                \<or> (\<exists>req v. Requirement en (rstrip_nl (?ls ! i)) = Inr req \<and> truthy v
                       \<and> outs ! i = reconstruct req (Some ''=='') v)" if "i < length outs" for i
  proof -
    have "fst (loop_body en (?ls ! i) []) = Inr (outs ! i)" using nth [OF that] by blast
    then have "loop_body en (?ls ! i) [] = (Inr (outs ! i), snd (loop_body en (?ls ! i) []))"
      by (metis prod.collapse)
    from loop_body_cases [OF this] show ?thesis .
  qed
  show ?thesis using u len nth cases by blast
qed

text \<open>The example file has three lines, and three lines are written.\<close>

theorem order_preserved_witness:
  "\<exists>updated_lines lg'.
      update_requirements_file demo_env ''requirements.txt'' demo_world
        = (Inr (), \<lparr>files = (files demo_world)(''requirements.txt'' \<mapsto> join [LF] updated_lines @ [LF]),
                   logged = lg'\<rparr>)
      \<and> length updated_lines = 3"
proof -
  have n: "normal_operation demo_env"
    by (simp add: normal_operation_def demo_defs is_Exception_def)
  have f: "files demo_world ''requirements.txt''
             = Some (''# pinned manually'' @ [LF] @ ''numpy'' @ [LF] @ ''flask[async]>=2.0'' @ [LF])"
    by (simp add: demo_world_def)
  have r: "read_error demo_env ''requirements.txt'' = None"
    and w: "write_error demo_env ''requirements.txt'' = None"
    by (simp_all add: demo_env_def)
  from order_preserved [OF n f r w] show ?thesis unfolding demo_lines by auto
qed

section \<open>Errors before the write\<close>

text \<open>
  Claim C6.  If the first \<^verbatim>\<open>try\<close> block, which reads and processes the lines, raises,
  then no file is changed; and when what it raises is an \<^verbatim>\<open>Exception\<close>, the function
  logs it at error level and returns without writing.  Under normal operation an error
  in reading the file, from \<^verbatim>\<open>open\<close> or from the iteration, is such an \<^verbatim>\<open>Exception\<close>
  raised by the block.
\<close>

theorem read_error_aborts:
  "(read_phase en requirements_file w = (Inl e, lg)
      \<longrightarrow> files (snd (update_requirements_file en requirements_file w)) = files w
          \<and> (is_Exception e
               \<longrightarrow> update_requirements_file en requirements_file w
                   = (Inr (),
                      w\<lparr>logged := lg @ [(ERROR, ''Error processing requirements file: ''
                                                 @ str_exn e)]\<rparr>)))
   \<and> (normal_operation en \<and> snd (read_lines en requirements_file w) = Some e'
      \<longrightarrow> is_Exception e' \<and> (\<exists>lg. read_phase en requirements_file w = (Inl e', lg)))"
proof (intro conjI impI)
  assume "read_phase en requirements_file w = (Inl e, lg)"
  then show "files (snd (update_requirements_file en requirements_file w)) = files w"
    by (simp add: update_requirements_file_def)
next
  assume "read_phase en requirements_file w = (Inl e, lg)" and "is_Exception e"
  then show "update_requirements_file en requirements_file w
                   = (Inr (),
                      w\<lparr>logged := lg @ [(ERROR, ''Error processing requirements file: ''
                                                 @ str_exn e)]\<rparr>)"
    by (simp add: update_requirements_file_def logging_log_def)
next
  assume h: "normal_operation en \<and> snd (read_lines en requirements_file w) = Some e'"
  then show "is_Exception e'"
    by (auto simp: read_lines_def normal_operation_def is_Exception_def
        split: option.splits)
next
  assume h: "normal_operation en \<and> snd (read_lines en requirements_file w) = Some e'"
  obtain ls where rl: "read_lines en requirements_file w = (ls, Some e')"
    using h by (cases "read_lines en requirements_file w") simp
  obtain outs lg where fl: "for_lines en ls [] (logged w) = (Inr outs, lg)"
    using for_lines_returns [of en ls "[]" "logged w"] h by auto
  show "\<exists>lg. read_phase en requirements_file w = (Inl e', lg)"
    using rl fl by (simp add: read_phase_def)
qed

text \<open>
  A missing file, and a file that stops decoding after two lines: the error is logged and
  the files are as they were.
\<close>

theorem read_error_aborts_witness:
  "update_requirements_file demo_env ''missing.txt'' demo_world
     = (Inr (),
        demo_world\<lparr>logged :=
          [(ERROR, ''Error processing requirements file: [Errno 2] No such file or directory: ''
                     @ repr_str ''missing.txt'')]\<rparr>)
   \<and> files (snd (update_requirements_file bad_encoding_env ''requirements.txt'' demo_world))
       = files demo_world
   \<and> last (logged (snd (update_requirements_file bad_encoding_env ''requirements.txt'' demo_world)))
       = (ERROR, ''Error processing requirements file: invalid start byte'')"
proof -
  let ?e = "Exn OtherException (''[Errno 2] No such file or directory: '' @ repr_str ''missing.txt'')"
  let ?d = "Exn OtherException ''invalid start byte''"
  have a: "read_phase demo_env ''missing.txt'' demo_world = (Inl ?e, [])"
    by (simp add: read_phase_def read_lines_def demo_world_def)
  have ae: "is_Exception ?e" by (simp add: is_Exception_def)
  have n: "normal_operation bad_encoding_env
           \<and> snd (read_lines bad_encoding_env ''requirements.txt'' demo_world) = Some ?d"
    by (simp add: normal_operation_def demo_defs bad_encoding_env_def is_Exception_def
        read_lines_def)
  note A = read_error_aborts [of demo_env "''missing.txt''" demo_world ?e "[]",
      THEN conjunct1, rule_format, OF a]
  note B = read_error_aborts [of bad_encoding_env "''requirements.txt''" demo_world _ _ ?d,
      THEN conjunct2, rule_format, OF n]
  from B obtain lg where b: "read_phase bad_encoding_env ''requirements.txt'' demo_world = (Inl ?d, lg)"
    and be: "is_Exception ?d" by blast
  note C = read_error_aborts [of bad_encoding_env "''requirements.txt''" demo_world ?d lg,
      THEN conjunct1, rule_format, OF b]
  have c1: "update_requirements_file demo_env ''missing.txt'' demo_world
     = (Inr (),
        demo_world\<lparr>logged :=
          [(ERROR, ''Error processing requirements file: [Errno 2] No such file or directory: ''
                     @ repr_str ''missing.txt'')]\<rparr>)"
    using A [THEN conjunct2, rule_format, OF ae] by simp
  have c2: "files (snd (update_requirements_file bad_encoding_env ''requirements.txt'' demo_world))
       = files demo_world"
    using C [THEN conjunct1] .
  have c3: "last (logged (snd (update_requirements_file bad_encoding_env ''requirements.txt'' demo_world)))
       = (ERROR, ''Error processing requirements file: invalid start byte'')"
    using C [THEN conjunct2, rule_format, OF be] by simp
  show ?thesis using c1 c2 c3 by blast
qed

section \<open>The empty file\<close>

text \<open>
  Claim C9.  When the file is empty, and reading and writing it do not fail, the run
  leaves it holding exactly one newline character; and when the file holds exactly one
  newline character, the run leaves it so.  Nothing is logged.
\<close>

theorem empty_file_becomes_newline:
  assumes "files w requirements_file = Some [] \<or> files w requirements_file = Some [LF]"
    and "read_error en requirements_file = None"
    and "write_error en requirements_file = None"
  shows "update_requirements_file en requirements_file w
           = (Inr (), w\<lparr>files := (files w)(requirements_file \<mapsto> [LF])\<rparr>)"
  using assms
  by (auto simp: update_requirements_file_def read_phase_def read_lines_def write_phase_def
      loop_body_def Let_def rstrip_nl_def strip_def)

text \<open>The empty file becomes a newline, and a second run keeps it.\<close>

theorem empty_file_becomes_newline_witness:
  "update_requirements_file demo_env ''requirements.txt'' \<lparr>files = [''requirements.txt'' \<mapsto> []], logged = []\<rparr>
     = (Inr (), \<lparr>files = [''requirements.txt'' \<mapsto> [LF]], logged = []\<rparr>)
   \<and> update_requirements_file demo_env ''requirements.txt'' \<lparr>files = [''requirements.txt'' \<mapsto> [LF]], logged = []\<rparr>
     = (Inr (), \<lparr>files = [''requirements.txt'' \<mapsto> [LF]], logged = []\<rparr>)"
proof -
  have r: "read_error demo_env ''requirements.txt'' = None"
    and w: "write_error demo_env ''requirements.txt'' = None"
    by (simp_all add: demo_env_def)
  have a: "files \<lparr>files = [''requirements.txt'' \<mapsto> []], logged = []\<rparr> ''requirements.txt'' = Some []
           \<or> files \<lparr>files = [''requirements.txt'' \<mapsto> []], logged = []\<rparr> ''requirements.txt'' = Some [LF]"
    by simp
  have b: "files \<lparr>files = [''requirements.txt'' \<mapsto> [LF]], logged = []\<rparr> ''requirements.txt'' = Some []
           \<or> files \<lparr>files = [''requirements.txt'' \<mapsto> [LF]], logged = []\<rparr> ''requirements.txt'' = Some [LF]"
    by simp
  from empty_file_becomes_newline [OF a r w] empty_file_becomes_newline [OF b r w]
  show ?thesis by simp
qed

section \<open>Idempotence\<close>







end
